theory Spec2Isabelle
  imports Complex_Main "HOL-Library.AList"
begin

section \<open>Python values\<close>

text \<open>
  A Python float is an IEEE 754 binary64 number. The finite ones are modelled by their
  real values, and the result of an arithmetic operation on samples is rounded to the
  nearest binary64 value, ties to even: \<open>binade\<close> is the exponent of a positive number,
  \<open>round64\<close> the rounding, with the subnormal numbers below the exponent -1022. The
  numbers that \<open>round64\<close> leaves as they are stand for the binary64 values. The two
  infinities, and with them overflow, are not modelled.
\<close>

definition round_half_even :: "real \<Rightarrow> int" where
  "round_half_even q =
     (let f = \<lfloor>q\<rfloor>; r = q - of_int f in
      if r < 1 / 2 then f else if 1 / 2 < r then f + 1 else if even f then f else f + 1)"

function binade :: "real \<Rightarrow> int" where
  "binade x =
     (if x \<le> 0 then 0
      else if 2 \<le> x then binade (x / 2) + 1
      else if x < 1 then binade (2 * x) - 1
      else 0)"
  by pat_completeness auto
termination
proof (relation "measure (\<lambda>x. nat \<bar>\<lfloor>log 2 x\<rfloor>\<bar>)")
  show "wf (measure (\<lambda>x. nat \<bar>\<lfloor>log 2 x\<rfloor>\<bar>))" by simp
next
  fix x :: real
  assume "\<not> x \<le> 0" "2 \<le> x"
  then have "log 2 (x / 2) = log 2 x - 1" "1 \<le> log 2 x"
    by (simp_all add: log_divide)
  then have "\<lfloor>log 2 (x / 2)\<rfloor> = \<lfloor>log 2 x\<rfloor> - 1" "1 \<le> \<lfloor>log 2 x\<rfloor>"
    by (simp_all add: le_floor_iff)
  then have "nat \<bar>\<lfloor>log 2 (x / 2)\<rfloor>\<bar> < nat \<bar>\<lfloor>log 2 x\<rfloor>\<bar>"
    by linarith
  then show "(x / 2, x) \<in> measure (\<lambda>x. nat \<bar>\<lfloor>log 2 x\<rfloor>\<bar>)"
    by simp
next
  fix x :: real
  assume "\<not> x \<le> 0" "\<not> 2 \<le> x" "x < 1"
  then have "log 2 (2 * x) = log 2 x + 1" "log 2 x < 0"
    by (simp_all add: log_mult)
  then have "\<lfloor>log 2 (2 * x)\<rfloor> = \<lfloor>log 2 x\<rfloor> + 1" "\<lfloor>log 2 x\<rfloor> < 0"
    by (simp_all add: floor_less_iff)
  then have "nat \<bar>\<lfloor>log 2 (2 * x)\<rfloor>\<bar> < nat \<bar>\<lfloor>log 2 x\<rfloor>\<bar>"
    by linarith
  then show "(2 * x, x) \<in> measure (\<lambda>x. nat \<bar>\<lfloor>log 2 x\<rfloor>\<bar>)"
    by simp
qed

declare binade.simps [simp del]

definition round64 :: "real \<Rightarrow> real" where
  "round64 x =
     (let e = max (binade \<bar>x\<bar>) (- 1022); ulp = 2 powi (e - 52)
      in of_int (round_half_even (x / ulp)) * ulp)"

definition is_double :: "real \<Rightarrow> bool" where
  "is_double x = (round64 x = x)"

text \<open>
  A float is a binary64 value or the not-a-number value. Every comparison with
  not-a-number is false and arithmetic on it gives not-a-number. \<open>dbl x\<close> is the float
  that the decimal literal \<open>x\<close> denotes. The subtraction rounds. The addition is used
  once, for \<open>lon + 360\<close> on a negative longitude, and is left unrounded: for a
  longitude of [-180, 0) the sum lies in [180, 360) and its rounding in [180, 360], where
  the classifier gives the same answer.
\<close>

datatype pyfloat = Fin real | NaN

definition dbl :: "real \<Rightarrow> pyfloat" where
  "dbl x = Fin (round64 x)"

fun isnan :: "pyfloat \<Rightarrow> bool" where
  "isnan NaN = True"
| "isnan (Fin _) = False"

lemma isnan_dbl [simp]: "isnan (dbl x) = False"
  by (simp add: dbl_def)

fun flt :: "pyfloat \<Rightarrow> pyfloat \<Rightarrow> bool" where
  "flt (Fin a) (Fin b) = (a < b)"
| "flt _ _ = False"

fun fle :: "pyfloat \<Rightarrow> pyfloat \<Rightarrow> bool" where
  "fle (Fin a) (Fin b) = (a \<le> b)"
| "fle _ _ = False"

fun fgt :: "pyfloat \<Rightarrow> pyfloat \<Rightarrow> bool" where
  "fgt (Fin a) (Fin b) = (a > b)"
| "fgt _ _ = False"

fun fge :: "pyfloat \<Rightarrow> pyfloat \<Rightarrow> bool" where
  "fge (Fin a) (Fin b) = (a \<ge> b)"
| "fge _ _ = False"

fun fadd :: "pyfloat \<Rightarrow> pyfloat \<Rightarrow> pyfloat" where
  "fadd (Fin a) (Fin b) = Fin (a + b)"
| "fadd _ _ = NaN"

fun fsub :: "pyfloat \<Rightarrow> pyfloat \<Rightarrow> pyfloat" where
  "fsub (Fin a) (Fin b) = Fin (round64 (a - b))"
| "fsub _ _ = NaN"

fun fabs :: "pyfloat \<Rightarrow> pyfloat" where
  "fabs (Fin a) = Fin \<bar>a\<bar>"
| "fabs NaN = NaN"

section \<open>Region classifier\<close>

text \<open>\<^verbatim>\<open>ArgoNetCDFProcessor._determine_ocean_region\<close> (netcdf_processor.py).\<close>

definition determine_ocean_region :: "pyfloat \<Rightarrow> pyfloat \<Rightarrow> string" where
  "determine_ocean_region lat lon0 =
     (let lon = (if flt lon0 (Fin 0) then fadd lon0 (Fin 360) else lon0) in
      if fge lat (Fin (- 60)) \<and> fle lat (Fin 30) \<and> fge lon (Fin 20) \<and> fle lon (Fin 120)
      then ''Indian Ocean''
      else if (fge lon (Fin 120) \<and> fle lon (Fin 290)) \<or> (fge lon (Fin 290) \<and> fle lon (Fin 360))
              \<or> (fge lon (Fin 0) \<and> fle lon (Fin 70))
      then ''Pacific Ocean''
      else if fge lon (Fin 290) \<or> fle lon (Fin 20)
      then ''Atlantic Ocean''
      else if flt lat (Fin (- 60))
      then ''Southern Ocean''
      else if fgt lat (Fin 66)
      then ''Arctic Ocean''
      else ''Unknown'')"

text \<open>
  The classifier as section 4.3 of the specification words it: the normalisation of the
  longitude, the three longitude bands and the cascade over them.
\<close>

definition normalize_lon :: "real \<Rightarrow> real" where
  "normalize_lon lon = (if lon < 0 then lon + 360 else lon)"

definition indian_rule :: "real \<Rightarrow> real \<Rightarrow> bool" where
  "indian_rule lat lon = (lat \<in> {- 60 .. 30} \<and> lon \<in> {20 .. 120})"

definition pacific_rule :: "real \<Rightarrow> bool" where
  "pacific_rule lon = (lon \<in> {120 .. 290} \<union> {290 .. 360} \<union> {0 .. 70})"

definition atlantic_rule :: "real \<Rightarrow> bool" where
  "atlantic_rule lon = (lon \<ge> 290 \<or> lon \<le> 20)"

definition region_cascade :: "real \<Rightarrow> real \<Rightarrow> string" where
  "region_cascade lat lon =
     (if indian_rule lat lon then ''Indian Ocean''
      else if pacific_rule lon then ''Pacific Ocean''
      else if atlantic_rule lon then ''Atlantic Ocean''
      else if lat < - 60 then ''Southern Ocean''
      else if lat > 66 then ''Arctic Ocean''
      else ''Unknown'')"

definition region_labels :: "string set" where
  "region_labels = {''Indian Ocean'', ''Pacific Ocean'', ''Atlantic Ocean'',
                    ''Southern Ocean'', ''Arctic Ocean'', ''Unknown''}"

lemma determine_ocean_region_cascade:
  "determine_ocean_region (Fin lat) (Fin lon) = region_cascade lat (normalize_lon lon)"
  by (cases "lon < 0")
     (auto simp add: determine_ocean_region_def region_cascade_def normalize_lon_def
        indian_rule_def pacific_rule_def atlantic_rule_def Let_def)

lemma region_cascade_label: "region_cascade lat lon \<in> region_labels"
  by (simp add: region_cascade_def region_labels_def)

text \<open>
  C1. For every latitude in [-90, 90] and longitude in [-180, 180] the classifier returns
  the value of the rule cascade Indian, Pacific, Atlantic, Southern, Arctic, Unknown,
  evaluated in that order on the longitude normalised by adding 360 when negative, and
  the result is one of the six labels.
\<close>

theorem determine_ocean_region_total:
  assumes "- 90 \<le> lat" "lat \<le> 90" "- 180 \<le> lon" "lon \<le> 180"
  shows "determine_ocean_region (Fin lat) (Fin lon) = region_cascade lat (normalize_lon lon)
         \<and> determine_ocean_region (Fin lat) (Fin lon) \<in> region_labels"
  by (simp add: determine_ocean_region_cascade region_cascade_label)

theorem determine_ocean_region_total_witness:
  "determine_ocean_region (Fin (- 65)) (Fin (- 100)) = ''Pacific Ocean''
   \<and> region_cascade (- 65) (normalize_lon (- 100)) = ''Pacific Ocean''
   \<and> normalize_lon (- 100) = 260
   \<and> ''Pacific Ocean'' \<in> region_labels"
  using determine_ocean_region_total [of "- 65" "- 100"]
  by (simp add: region_cascade_def normalize_lon_def indian_rule_def pacific_rule_def
      region_labels_def)

text \<open>
  C10. For every latitude in [-90, 90] and longitude in [-180, 180] the classifier never
  returns the Atlantic label: on the normalised longitude the Atlantic rule implies the
  Pacific rule, and the Pacific rule is evaluated first.
\<close>

theorem determine_ocean_region_never_atlantic:
  assumes "- 90 \<le> lat" "lat \<le> 90" "- 180 \<le> lon" "lon \<le> 180"
  shows "determine_ocean_region (Fin lat) (Fin lon) \<noteq> ''Atlantic Ocean''
         \<and> (atlantic_rule (normalize_lon lon) \<longrightarrow> pacific_rule (normalize_lon lon))"
proof -
  have band: "atlantic_rule (normalize_lon lon) \<longrightarrow> pacific_rule (normalize_lon lon)"
    using assms by (auto simp add: atlantic_rule_def pacific_rule_def normalize_lon_def)
  then have "region_cascade lat (normalize_lon lon) \<noteq> ''Atlantic Ocean''"
    by (simp add: region_cascade_def)
  with band show ?thesis
    by (simp add: determine_ocean_region_cascade)
qed

theorem determine_ocean_region_never_atlantic_witness:
  "determine_ocean_region (Fin 30) (Fin (- 40)) = ''Pacific Ocean''
   \<and> atlantic_rule (normalize_lon (- 40)) \<and> pacific_rule (normalize_lon (- 40))"
  using determine_ocean_region_never_atlantic [of 30 "- 40"]
  by (simp add: determine_ocean_region_cascade region_cascade_def normalize_lon_def
      indian_rule_def pacific_rule_def atlantic_rule_def)

section \<open>Mixed-layer depth\<close>

text \<open>
  \<^verbatim>\<open>ArgoNetCDFProcessor._calculate_mld\<close> (netcdf_processor.py). The loop over
  \<^verbatim>\<open>zip(temperature, pressure)\<close> is \<open>mld_scan\<close>; it stops at the first pair whose
  temperature departs from the surface temperature by more than the threshold.
\<close>

fun mld_scan :: "pyfloat \<Rightarrow> pyfloat \<Rightarrow> (pyfloat \<times> pyfloat) list \<Rightarrow> pyfloat option" where
  "mld_scan surface_temp threshold [] = None"
| "mld_scan surface_temp threshold ((temp, depth) # rest) =
     (if fgt (fabs (fsub temp surface_temp)) threshold then Some depth
      else mld_scan surface_temp threshold rest)"

definition calculate_mld_with :: "pyfloat list \<Rightarrow> pyfloat list \<Rightarrow> pyfloat \<Rightarrow> pyfloat" where
  "calculate_mld_with temperature pressure threshold =
     (if length temperature < 2 then Fin 0
      else let surface_temp = temperature ! 0 in
        case mld_scan surface_temp threshold (zip temperature pressure) of
          Some depth \<Rightarrow> depth
        | None \<Rightarrow> (if length pressure > 0 then last pressure else Fin 0))"

text \<open>The call in the calculator leaves the threshold at its default, the float 0.2.\<close>

definition calculate_mld :: "pyfloat list \<Rightarrow> pyfloat list \<Rightarrow> pyfloat" where
  "calculate_mld temperature pressure = calculate_mld_with temperature pressure (dbl (2 / 10))"

text \<open>
  The departure test of the specification on a sequence of valid samples,
  \<open>|temperature[i] - temperature[0]| > 0.2\<close>, in the arithmetic of floats.
\<close>

definition departs :: "real list \<Rightarrow> nat \<Rightarrow> bool" where
  "departs ts i = (\<bar>round64 (ts ! i - ts ! 0)\<bar> > round64 (2 / 10))"

lemma round64_zero: "round64 0 = 0"
  by code_simp

lemma threshold_value: "round64 (2 / 10) = 3602879701896397 / 18014398509481984"
  by code_simp

lemma mld_scan_none:
  "length ts = length ps \<Longrightarrow> \<forall>i<length ts. \<not> \<bar>round64 (ts ! i - s)\<bar> > thr \<Longrightarrow>
   mld_scan (Fin s) (Fin thr) (zip (map Fin ts) (map Fin ps)) = None"
proof (induction ts ps rule: list_induct2)
  case Nil
  then show ?case by simp
next
  case (Cons t ts p ps)
  from Cons.prems have "\<not> \<bar>round64 (t - s)\<bar> > thr"
    by (metis length_greater_0_conv list.distinct(1) nth_Cons_0 length_Cons zero_less_Suc)
  moreover from Cons.prems have "\<forall>i<length ts. \<not> \<bar>round64 (ts ! i - s)\<bar> > thr" by auto
  ultimately show ?case using Cons.IH by simp
qed

lemma mld_scan_first:
  "length ts = length ps \<Longrightarrow> i < length ts \<Longrightarrow> \<bar>round64 (ts ! i - s)\<bar> > thr \<Longrightarrow>
   \<forall>j<i. \<not> \<bar>round64 (ts ! j - s)\<bar> > thr \<Longrightarrow>
   mld_scan (Fin s) (Fin thr) (zip (map Fin ts) (map Fin ps)) = Some (Fin (ps ! i))"
proof (induction ts ps arbitrary: i rule: list_induct2)
  case Nil
  then show ?case by simp
next
  case (Cons t ts p ps)
  show ?case
  proof (cases i)
    case 0
    with Cons.prems show ?thesis by simp
  next
    case (Suc k)
    with Cons.prems have "\<not> \<bar>round64 (t - s)\<bar> > thr" by auto
    moreover from Suc Cons.prems have "k < length ts" "\<bar>round64 (ts ! k - s)\<bar> > thr" by auto
    moreover from Suc Cons.prems have "\<forall>j<k. \<not> \<bar>round64 (ts ! j - s)\<bar> > thr" by auto
    ultimately show ?thesis using Cons.IH [of k] Suc by simp
  qed
qed

lemma surface_sample: "2 \<le> length ts \<Longrightarrow> map f ts ! 0 = f (ts ! 0)"
  by (cases ts) auto

text \<open>
  C2, amended. For temperature and pressure sequences of floats of equal length, none of
  them not-a-number, the mixed-layer depth is 0 when there are fewer than 2 samples;
  otherwise it is \<open>pressure[i]\<close> at the first index \<open>i\<close> whose temperature departs from
  the surface temperature by more than 0.2, and the last pressure sample when no index
  does, which is the deepest one when the pressures are in increasing order; in
  particular a profile of at least 2 samples with constant temperature yields the last
  pressure sample.
\<close>

theorem calculate_mld_cases:
  assumes "length ts = length ps" and "list_all is_double ts" and "list_all is_double ps"
  shows "(length ts < 2 \<longrightarrow> calculate_mld (map Fin ts) (map Fin ps) = Fin 0)
       \<and> (\<forall>i. 2 \<le> length ts \<and> i < length ts \<and> departs ts i \<and> (\<forall>j<i. \<not> departs ts j)
              \<longrightarrow> calculate_mld (map Fin ts) (map Fin ps) = Fin (ps ! i))
       \<and> (2 \<le> length ts \<and> (\<forall>i<length ts. \<not> departs ts i)
              \<longrightarrow> calculate_mld (map Fin ts) (map Fin ps) = Fin (last ps)
                  \<and> (sorted ps \<longrightarrow> last ps = Max (set ps)))
       \<and> (2 \<le> length ts \<and> (\<forall>i<length ts. ts ! i = ts ! 0)
              \<longrightarrow> calculate_mld (map Fin ts) (map Fin ps) = Fin (last ps))"
proof (intro conjI allI impI)
  assume "length ts < 2"
  then show "calculate_mld (map Fin ts) (map Fin ps) = Fin 0"
    by (simp add: calculate_mld_def calculate_mld_with_def)
next
  fix i
  assume h: "2 \<le> length ts \<and> i < length ts \<and> departs ts i \<and> (\<forall>j<i. \<not> departs ts j)"
  then have "mld_scan (Fin (ts ! 0)) (Fin (round64 (2 / 10))) (zip (map Fin ts) (map Fin ps))
             = Some (Fin (ps ! i))"
    using assms(1) by (intro mld_scan_first) (auto simp: departs_def)
  moreover from h assms(1) have "ps \<noteq> []" by auto
  moreover from h have "map Fin ts ! 0 = Fin (ts ! 0)" by (simp add: surface_sample)
  ultimately show "calculate_mld (map Fin ts) (map Fin ps) = Fin (ps ! i)"
    using h by (simp add: calculate_mld_def calculate_mld_with_def dbl_def)
next
  assume h: "2 \<le> length ts \<and> (\<forall>i<length ts. \<not> departs ts i)"
  then have "mld_scan (Fin (ts ! 0)) (Fin (round64 (2 / 10))) (zip (map Fin ts) (map Fin ps))
             = None"
    using assms(1) by (intro mld_scan_none) (auto simp: departs_def)
  moreover from h assms(1) have "ps \<noteq> []" by auto
  moreover from h have "map Fin ts ! 0 = Fin (ts ! 0)" by (simp add: surface_sample)
  ultimately show "calculate_mld (map Fin ts) (map Fin ps) = Fin (last ps)"
    using h by (simp add: calculate_mld_def calculate_mld_with_def dbl_def last_map)
next
  assume h: "2 \<le> length ts \<and> (\<forall>i<length ts. \<not> departs ts i)" and s: "sorted ps"
  from h assms(1) have ne: "ps \<noteq> []" by auto
  show "last ps = Max (set ps)"
  proof (rule sym, rule Max_eqI)
    show "finite (set ps)" by simp
    show "last ps \<in> set ps" using ne by simp
    fix y assume "y \<in> set ps"
    then obtain k where "k < length ps" "ps ! k = y" by (auto simp: in_set_conv_nth)
    then show "y \<le> last ps" using s ne sorted_nth_mono [of ps k "length ps - 1"]
      by (simp add: last_conv_nth)
  qed
next
  assume h: "2 \<le> length ts \<and> (\<forall>i<length ts. ts ! i = ts ! 0)"
  then have "mld_scan (Fin (ts ! 0)) (Fin (round64 (2 / 10))) (zip (map Fin ts) (map Fin ps))
             = None"
    using assms(1) threshold_value by (intro mld_scan_none) (auto simp: round64_zero)
  moreover from h assms(1) have "ps \<noteq> []" by auto
  moreover from h have "map Fin ts ! 0 = Fin (ts ! 0)" by (simp add: surface_sample)
  ultimately show "calculate_mld (map Fin ts) (map Fin ps) = Fin (last ps)"
    using h by (simp add: calculate_mld_def calculate_mld_with_def dbl_def last_map)
qed

theorem calculate_mld_cases_witness:
  "calculate_mld (map Fin [10, 81 / 8, 9, 5]) (map Fin [5, 10, 20, 30]) = Fin 20
   \<and> calculate_mld (map Fin [10, 10, 10]) (map Fin [5, 10, 20]) = Fin 20
   \<and> calculate_mld (map Fin [10]) (map Fin [5]) = Fin 0"
proof -
  have d: "list_all is_double [10, 81 / 8, 9, 5]" "list_all is_double [5, 10, 20, 30]"
    "list_all is_double [10, 10, 10]" "list_all is_double [5, 10, 20]"
    "list_all is_double [10]" "list_all is_double [5]"
    by code_simp+
  have dep: "departs [10, 81 / 8, 9, 5] 2" "\<not> departs [10, 81 / 8, 9, 5] 0"
    "\<not> departs [10, 81 / 8, 9, 5] 1"
    by code_simp+
  have a: "calculate_mld (map Fin [10, 81 / 8, 9, 5]) (map Fin [5, 10, 20, 30])
           = Fin ([5, 10, 20, 30] ! 2)"
    using calculate_mld_cases [OF _ d(1,2), THEN conjunct2, THEN conjunct1, rule_format, of 2] dep
    by (simp add: less_Suc_eq numeral_2_eq_2)
  have b: "calculate_mld (map Fin [10, 10, 10]) (map Fin [5, 10, 20]) = Fin (last [5, 10, 20])"
    using calculate_mld_cases [OF _ d(3,4), THEN conjunct2, THEN conjunct2, THEN conjunct2]
    by (simp add: nth_Cons')
  have c: "calculate_mld (map Fin [10]) (map Fin [5]) = Fin 0"
    using calculate_mld_cases [OF _ d(5,6), THEN conjunct1]
    by simp
  from a b c show ?thesis by simp
qed

text \<open>
  The last pressure sample is not the deepest one when the pressures are not in
  increasing order: with constant temperature and pressures 5, 30, 10 the result is 10.
\<close>

theorem calculate_mld_counterexample:
  "list_all is_double [10, 10, 10] \<and> list_all is_double [5, 30, 10]
   \<and> \<not> departs [10, 10, 10] 0 \<and> \<not> departs [10, 10, 10] 1 \<and> \<not> departs [10, 10, 10] 2
   \<and> calculate_mld (map Fin [10, 10, 10]) (map Fin [5, 30, 10]) = Fin 10
   \<and> Max (set [5, 30, 10 :: real]) = 30"
proof -
  have "list_all is_double [10, 10, 10]" "list_all is_double [5, 30, 10]"
    "\<not> departs [10, 10, 10] 0" "\<not> departs [10, 10, 10] 1" "\<not> departs [10, 10, 10] 2"
    "calculate_mld (map Fin [10, 10, 10]) (map Fin [5, 30, 10]) = Fin 10"
    by code_simp+
  moreover have "Max (set [5, 30, 10 :: real]) = 30"
    by simp
  ultimately show ?thesis by simp
qed

section \<open>Profile dictionaries\<close>

text \<open>
  The processor keeps a profile in a Python dictionary. A value is a scalar or a flat list
  of scalars; a dictionary is an association list in insertion order with distinct keys.
  A timestamp is the number of days since 1950-01-01.
\<close>

datatype error = KeyError | TypeError | ValueError | IndexError | AttributeError | OSError
  | OverflowError | LibraryError

datatype scalar = PyNone | PyFloat pyfloat | PyInt int | PyStr string | PyTimestamp real | PyNaT

datatype pyvalue = Scalar scalar | PyList "scalar list"

type_synonym pydict = "(string \<times> pyvalue) list"

definition and_then :: "error + 'a \<Rightarrow> ('a \<Rightarrow> error + 'b) \<Rightarrow> error + 'b" where
  "and_then m f = (case m of Inl e \<Rightarrow> Inl e | Inr v \<Rightarrow> f v)"

text \<open>\<^verbatim>\<open>d[key]\<close>, \<^verbatim>\<open>d[key] = value\<close> and \<^verbatim>\<open>d.update(other)\<close>.\<close>

definition dict_getitem :: "pydict \<Rightarrow> string \<Rightarrow> error + pyvalue" where
  "dict_getitem d key = (case map_of d key of None \<Rightarrow> Inl KeyError | Some v \<Rightarrow> Inr v)"

definition dict_setitem :: "string \<Rightarrow> pyvalue \<Rightarrow> pydict \<Rightarrow> pydict" where
  "dict_setitem key v d = AList.update key v d"

definition dict_update :: "pydict \<Rightarrow> pydict \<Rightarrow> pydict" where
  "dict_update d other = fold (\<lambda>(key, v). dict_setitem key v) other d"

section \<open>Array operations of numpy\<close>

text \<open>
  \<^verbatim>\<open>np.array\<close> on a list of numbers gives a numeric array, on which \<^verbatim>\<open>np.isnan\<close>
  is defined. With a float in the list the integers are converted to floats, which rounds
  them and raises OverflowError beyond the range of floats. A list of integers alone
  gives an integer array when they fit 64 bits, taken here as the float array of their
  values, and an array of objects, on which \<^verbatim>\<open>np.isnan\<close> raises TypeError, when one
  of them does not. A list with any other element gives an array of another dtype and
  \<^verbatim>\<open>np.isnan\<close> raises TypeError. A scalar gives a 0-dimensional array, with which
  the calculator returns its fallback as well (fewer than 3 valid samples, or an
  IndexError at the boolean index); it is an error here.
\<close>

fun is_float :: "scalar \<Rightarrow> bool" where
  "is_float (PyFloat f) = True"
| "is_float _ = False"

fun array_element :: "bool \<Rightarrow> scalar \<Rightarrow> pyfloat option" where
  "array_element with_floats (PyFloat f) = Some f"
| "array_element with_floats (PyInt i) =
     (if with_floats
      then (if \<bar>round64 (of_int i)\<bar> < 2 ^ 1024 then Some (Fin (round64 (of_int i))) else None)
      else if - (2 ^ 63) \<le> i \<and> i < 2 ^ 64 then Some (Fin (of_int i)) else None)"
| "array_element with_floats _ = None"

fun np_array :: "pyvalue \<Rightarrow> error + pyfloat list" where
  "np_array (PyList xs) =
     (case those (map (array_element (list_ex is_float xs)) xs) of
        None \<Rightarrow> Inl TypeError
      | Some a \<Rightarrow> Inr a)"
| "np_array (Scalar _) = Inl TypeError"

text \<open>
  An elementwise binary operation on two one-dimensional arrays: equal lengths, or one of
  them of length 1, which is broadcast; any other pair of lengths raises ValueError.
\<close>

definition broadcast2 :: "('a \<Rightarrow> 'b \<Rightarrow> 'c) \<Rightarrow> 'a list \<Rightarrow> 'b list \<Rightarrow> error + 'c list" where
  "broadcast2 f xs ys =
     (if length xs = length ys then Inr (map (\<lambda>(x, y). f x y) (zip xs ys))
      else if length xs = 1 then Inr (map (f (hd xs)) ys)
      else if length ys = 1 then Inr (map (\<lambda>x. f x (hd ys)) xs)
      else Inl ValueError)"

text \<open>\<^verbatim>\<open>~(np.isnan(temp) | np.isnan(sal) | np.isnan(pres))\<close>\<close>

definition valid_mask :: "pyfloat list \<Rightarrow> pyfloat list \<Rightarrow> pyfloat list \<Rightarrow> error + bool list" where
  "valid_mask temp sal pres =
     and_then (broadcast2 (\<or>) (map isnan temp) (map isnan sal)) (\<lambda>a.
     and_then (broadcast2 (\<or>) a (map isnan pres)) (\<lambda>b.
     Inr (map Not b)))"

definition np_sum :: "bool list \<Rightarrow> nat" where
  "np_sum valid = length (filter (\<lambda>b. b) valid)"

text \<open>\<^verbatim>\<open>xs[valid]\<close>: the mask must be as long as the array, or IndexError is raised.\<close>

definition bool_index :: "'a list \<Rightarrow> bool list \<Rightarrow> error + 'a list" where
  "bool_index xs valid =
     (if length valid = length xs then Inr (map fst (filter snd (zip xs valid)))
      else Inl IndexError)"

fun fmax :: "pyfloat \<Rightarrow> pyfloat \<Rightarrow> pyfloat" where
  "fmax (Fin a) (Fin b) = Fin (max a b)"
| "fmax _ _ = NaN"

fun np_max :: "pyfloat list \<Rightarrow> error + pyfloat" where
  "np_max [] = Inl ValueError"
| "np_max (x # xs) = Inr (fold fmax xs x)"

section \<open>Derived-parameter calculator\<close>

text \<open>
  The seawater library gsw is not part of the repository. Its three functions are
  parameters; each returns an array or raises.
\<close>

record gsw =
  SA_from_SP :: "pyfloat list \<Rightarrow> pyfloat list \<Rightarrow> pyvalue \<Rightarrow> pyvalue \<Rightarrow> error + pyfloat list"
  CT_from_t :: "pyfloat list \<Rightarrow> pyfloat list \<Rightarrow> pyfloat list \<Rightarrow> error + pyfloat list"
  sigma0 :: "pyfloat list \<Rightarrow> pyfloat list \<Rightarrow> error + pyfloat list"

definition fallback_parameters :: pydict where
  "fallback_parameters =
     [(''max_depth'', Scalar (PyInt 0)), (''mixed_layer_depth'', Scalar (PyInt 0))]"

definition full_parameters ::
  "pyfloat list \<Rightarrow> pyfloat list \<Rightarrow> pyfloat list \<Rightarrow> pyfloat \<Rightarrow> pyfloat \<Rightarrow> pydict" where
  "full_parameters SA CT sig mld mx =
     [(''absolute_salinity'', PyList (map PyFloat SA)),
      (''conservative_temperature'', PyList (map PyFloat CT)),
      (''potential_density'', PyList (map PyFloat sig)),
      (''mixed_layer_depth'', Scalar (PyFloat mld)),
      (''max_depth'', Scalar (PyFloat mx))]"

text \<open>Lines 80 to 84 of \<^verbatim>\<open>_calculate_derived_parameters\<close>: the five inputs.\<close>

definition load_inputs ::
  "pydict \<Rightarrow> error + (pyfloat list \<times> pyfloat list \<times> pyfloat list \<times> pyvalue \<times> pyvalue)" where
  "load_inputs profile_data =
     and_then (dict_getitem profile_data ''temperature'') (\<lambda>tv.
     and_then (np_array tv) (\<lambda>temp.
     and_then (dict_getitem profile_data ''salinity'') (\<lambda>sv.
     and_then (np_array sv) (\<lambda>sal.
     and_then (dict_getitem profile_data ''pressure_levels'') (\<lambda>pv.
     and_then (np_array pv) (\<lambda>pres.
     and_then (dict_getitem profile_data ''latitude'') (\<lambda>lat.
     and_then (dict_getitem profile_data ''longitude'') (\<lambda>lon.
     Inr (temp, sal, pres, lat, lon)))))))))"

text \<open>Lines 92 to 94: the three arrays restricted to the valid indices.\<close>

definition clean_samples ::
  "pyfloat list \<Rightarrow> pyfloat list \<Rightarrow> pyfloat list \<Rightarrow> bool list \<Rightarrow>
   error + (pyfloat list \<times> pyfloat list \<times> pyfloat list)" where
  "clean_samples temp sal pres valid =
     and_then (bool_index temp valid) (\<lambda>temp_clean.
     and_then (bool_index sal valid) (\<lambda>sal_clean.
     and_then (bool_index pres valid) (\<lambda>pres_clean.
     Inr (temp_clean, sal_clean, pres_clean))))"

text \<open>The body of the \<^verbatim>\<open>try\<close> block: \<open>Inl\<close> is a raised exception.\<close>

definition derived_try :: "gsw \<Rightarrow> pydict \<Rightarrow> error + pydict" where
  "derived_try g profile_data =
     and_then (load_inputs profile_data) (\<lambda>(temp, sal, pres, lat, lon).
     and_then (valid_mask temp sal pres) (\<lambda>valid.
     if np_sum valid < 3 then Inr fallback_parameters
     else
       and_then (clean_samples temp sal pres valid) (\<lambda>(temp_clean, sal_clean, pres_clean).
       and_then (SA_from_SP g sal_clean pres_clean lon lat) (\<lambda>SA.
       and_then (CT_from_t g SA temp_clean pres_clean) (\<lambda>CT.
       and_then (sigma0 g SA CT) (\<lambda>sig.
       and_then (np_max pres_clean) (\<lambda>mx.
       Inr (full_parameters SA CT sig (calculate_mld temp_clean pres_clean) mx))))))))"

text \<open>
  \<^verbatim>\<open>ArgoNetCDFProcessor._calculate_derived_parameters\<close>: every exception of the body is
  caught and answered with the fallback.
\<close>

definition calculate_derived_parameters :: "gsw \<Rightarrow> pydict \<Rightarrow> pydict" where
  "calculate_derived_parameters g profile_data =
     (case derived_try g profile_data of
        Inl e \<Rightarrow> fallback_parameters
      | Inr derived \<Rightarrow> derived)"

text \<open>An exception is raised in the body.\<close>

definition raises :: "gsw \<Rightarrow> pydict \<Rightarrow> bool" where
  "raises g profile_data = (case derived_try g profile_data of Inl e \<Rightarrow> True | Inr d \<Rightarrow> False)"

text \<open>Two instances of the library: one that returns its first argument, one that raises.\<close>

definition gsw_plain :: gsw where
  "gsw_plain = \<lparr>SA_from_SP = (\<lambda>sal pres lon lat. Inr sal),
                 CT_from_t = (\<lambda>SA temp pres. Inr SA),
                 sigma0 = (\<lambda>SA CT. Inr SA)\<rparr>"

definition gsw_raising :: gsw where
  "gsw_raising = \<lparr>SA_from_SP = (\<lambda>sal pres lon lat. Inl LibraryError),
                   CT_from_t = (\<lambda>SA temp pres. Inr SA),
                   sigma0 = (\<lambda>SA CT. Inr SA)\<rparr>"

definition float_list :: "real list \<Rightarrow> pyvalue" where
  "float_list xs = PyList (map (\<lambda>x. PyFloat (Fin x)) xs)"

definition profile_of ::
  "pyfloat \<Rightarrow> pyfloat \<Rightarrow> scalar list \<Rightarrow> scalar list \<Rightarrow> scalar list \<Rightarrow> pydict" where
  "profile_of lat lon pres temp sal =
     [(''latitude'', Scalar (PyFloat lat)), (''longitude'', Scalar (PyFloat lon)),
      (''pressure_levels'', PyList pres), (''temperature'', PyList temp),
      (''salinity'', PyList sal)]"

lemma full_not_fallback: "full_parameters SA CT sg mld mx \<noteq> fallback_parameters"
  by (simp add: full_parameters_def fallback_parameters_def)

definition three_levels :: pydict where
  "three_levels = profile_of (Fin 10) (Fin 60)
     [PyFloat (Fin 5), PyFloat (Fin 10), PyFloat (Fin 20)]
     [PyFloat (Fin 20), PyFloat (Fin 19), PyFloat (Fin 18)]
     [PyFloat (Fin 35), PyFloat (Fin 35), PyFloat (Fin 35)]"

definition two_valid :: pydict where
  "two_valid = profile_of (Fin 10) (Fin 60)
     [PyFloat (Fin 5), PyFloat (Fin 10), PyFloat (Fin 20)]
     [PyFloat (Fin 20), PyFloat NaN, PyFloat (Fin 18)]
     [PyFloat (Fin 35), PyFloat (Fin 35), PyFloat (Fin 35)]"

lemmas eval_defs = load_inputs_def profile_of_def and_then_def dict_getitem_def valid_mask_def
  broadcast2_def np_sum_def bool_index_def clean_samples_def derived_try_def

section \<open>Joint validity\<close>

text \<open>
  The joint validity mask as the specification words it: an index is valid when
  temperature, salinity and pressure are all present (not a not-a-number) there; the valid
  subset of a sequence keeps the valid indices, in order.
\<close>

definition jointly_valid :: "pyfloat list \<Rightarrow> pyfloat list \<Rightarrow> pyfloat list \<Rightarrow> nat \<Rightarrow> bool" where
  "jointly_valid temp sal pres i = (\<not> isnan (temp ! i) \<and> \<not> isnan (sal ! i) \<and> \<not> isnan (pres ! i))"

definition valid_indices :: "pyfloat list \<Rightarrow> pyfloat list \<Rightarrow> pyfloat list \<Rightarrow> nat list" where
  "valid_indices temp sal pres = filter (jointly_valid temp sal pres) [0 ..< length temp]"

definition keep :: "'a list \<Rightarrow> nat list \<Rightarrow> 'a list" where
  "keep xs idx = map (\<lambda>i. xs ! i) idx"

fun fin_values :: "pyfloat list \<Rightarrow> real list" where
  "fin_values [] = []"
| "fin_values (Fin r # xs) = r # fin_values xs"
| "fin_values (NaN # xs) = fin_values xs"

text \<open>The contract of the seawater library: a result is as long as the first argument.\<close>

definition length_preserving :: "gsw \<Rightarrow> bool" where
  "length_preserving g =
     ((\<forall>sal pres lon lat r. SA_from_SP g sal pres lon lat = Inr r \<longrightarrow> length r = length sal)
      \<and> (\<forall>SA temp pres r. CT_from_t g SA temp pres = Inr r \<longrightarrow> length r = length SA)
      \<and> (\<forall>SA CT r. sigma0 g SA CT = Inr r \<longrightarrow> length r = length SA))"

lemma valid_mask_equal_length:
  assumes "length temp = length sal" "length sal = length pres"
  shows "valid_mask temp sal pres = Inr (map (jointly_valid temp sal pres) [0 ..< length temp])"
proof -
  have "map Not (map (\<lambda>(x, y). x \<or> y)
          (zip (map (\<lambda>(x, y). x \<or> y) (zip (map isnan temp) (map isnan sal))) (map isnan pres)))
        = map (jointly_valid temp sal pres) [0 ..< length temp]"
    using assms by (intro nth_equalityI) (simp_all add: jointly_valid_def)
  then show ?thesis
    using assms by (simp add: valid_mask_def broadcast2_def and_then_def)
qed

lemma filter_snd_zip_map:
  "map fst (filter snd (zip xs (map P [0 ..< length xs])))
   = map (\<lambda>i. xs ! i) (filter P [0 ..< length xs])"
proof (induction xs rule: rev_induct)
  case Nil
  then show ?case by simp
next
  case (snoc x xs)
  have "map (\<lambda>i. (xs @ [x]) ! i) (filter P [0 ..< length xs])
        = map (\<lambda>i. xs ! i) (filter P [0 ..< length xs])"
    by (rule map_cong) (auto simp: nth_append)
  with snoc.IH show ?case by simp
qed

lemma bool_index_keep:
  "bool_index xs (map P [0 ..< length xs]) = Inr (keep xs (filter P [0 ..< length xs]))"
  by (simp add: bool_index_def keep_def filter_snd_zip_map)

lemma np_sum_map: "np_sum (map P is) = length (filter P is)"
  by (induction "is") (simp_all add: np_sum_def)

lemma fold_fmax:
  "\<forall>x\<in>set xs. \<not> isnan x \<Longrightarrow> fold fmax xs (Fin a) = Fin (fold max (fin_values xs) a)"
proof (induction xs arbitrary: a)
  case Nil
  then show ?case by simp
next
  case (Cons x xs)
  then show ?case by (cases x) (simp_all add: max.commute)
qed

lemma np_max_valid:
  assumes "\<forall>x\<in>set xs. \<not> isnan x" "xs \<noteq> []"
  shows "np_max xs = Inr (Fin (Max (set (fin_values xs))))"
proof (cases xs)
  case Nil
  with assms show ?thesis by simp
next
  case (Cons x rest)
  with assms obtain a where a: "x = Fin a" by (cases x) auto
  from Cons assms have "\<forall>y\<in>set rest. \<not> isnan y" by simp
  then have "fold fmax rest (Fin a) = Fin (fold max (fin_values rest) a)"
    by (rule fold_fmax)
  with Cons a show ?thesis
    using Max.set_eq_fold [of a "fin_values rest"] by simp
qed

lemma keep_valid_pressure:
  "length temp = length pres \<Longrightarrow> \<forall>x\<in>set (keep pres (valid_indices temp sal pres)). \<not> isnan x"
  by (auto simp add: keep_def valid_indices_def jointly_valid_def)


lemma clean_samples_keep:
  assumes "length temp = length sal" "length sal = length pres"
  shows "clean_samples temp sal pres (map (jointly_valid temp sal pres) [0 ..< length temp])
         = Inr (keep temp (valid_indices temp sal pres), keep sal (valid_indices temp sal pres),
                keep pres (valid_indices temp sal pres))"
proof -
  let ?P = "jointly_valid temp sal pres"
  have t: "bool_index temp (map ?P [0 ..< length temp]) = Inr (keep temp (filter ?P [0 ..< length temp]))"
    by (rule bool_index_keep)
  have s: "bool_index sal (map ?P [0 ..< length temp]) = Inr (keep sal (filter ?P [0 ..< length temp]))"
    using bool_index_keep [of sal ?P] assms by simp
  have p: "bool_index pres (map ?P [0 ..< length temp]) = Inr (keep pres (filter ?P [0 ..< length temp]))"
    using bool_index_keep [of pres ?P] assms by simp
  show ?thesis
    by (simp add: clean_samples_def and_then_def t s p valid_indices_def)
qed

text \<open>
  C5, amended. For a profile whose temperature, salinity and pressure sequences have a
  common length, the mask keeps exactly the indices where all three values are not
  not-a-number, the same indices in the three arrays. When at least 3 such indices remain
  and the seawater library raises no exception and returns sequences as long as its input,
  the filtered pressure, temperature and salinity sequences and the derived absolute
  salinity, conservative temperature and potential density sequences all have the number
  of jointly valid indices as their length, and \<open>max_depth\<close> is the maximum jointly
  valid pressure.
\<close>

theorem derived_alignment:
  assumes inputs: "load_inputs pd = Inr (temp, sal, pres, lat, lon)"
    and len: "length temp = length sal" "length sal = length pres"
    and three: "3 \<le> length (valid_indices temp sal pres)"
    and lib: "length_preserving g" "\<not> raises g pd"
  shows "let idx = valid_indices temp sal pres; n = length idx in
         \<exists>SA CT sg.
           valid_mask temp sal pres = Inr (map (jointly_valid temp sal pres) [0 ..< length temp])
           \<and> clean_samples temp sal pres (map (jointly_valid temp sal pres) [0 ..< length temp])
               = Inr (keep temp idx, keep sal idx, keep pres idx)
           \<and> calculate_derived_parameters g pd
               = full_parameters SA CT sg (calculate_mld (keep temp idx) (keep pres idx))
                   (Fin (Max (set (fin_values (keep pres idx)))))
           \<and> length (keep temp idx) = n \<and> length (keep sal idx) = n \<and> length (keep pres idx) = n
           \<and> length SA = n \<and> length CT = n \<and> length sg = n"
proof -
  let ?idx = "valid_indices temp sal pres"
  let ?m = "map (jointly_valid temp sal pres) [0 ..< length temp]"
  have vm: "valid_mask temp sal pres = Inr ?m"
    using len by (rule valid_mask_equal_length)
  have cnt: "np_sum ?m = length ?idx"
    by (simp add: np_sum_map valid_indices_def)
  have cs: "clean_samples temp sal pres ?m = Inr (keep temp ?idx, keep sal ?idx, keep pres ?idx)"
    using len by (rule clean_samples_keep)
  have ne: "keep pres ?idx \<noteq> []"
    using three by (auto simp add: keep_def)
  have mx: "np_max (keep pres ?idx) = Inr (Fin (Max (set (fin_values (keep pres ?idx)))))"
    using keep_valid_pressure [of temp pres sal] len ne by (intro np_max_valid) simp_all
  have body: "derived_try g pd =
      and_then (SA_from_SP g (keep sal ?idx) (keep pres ?idx) lon lat) (\<lambda>SA.
      and_then (CT_from_t g SA (keep temp ?idx) (keep pres ?idx)) (\<lambda>CT.
      and_then (sigma0 g SA CT) (\<lambda>sg.
      Inr (full_parameters SA CT sg (calculate_mld (keep temp ?idx) (keep pres ?idx))
             (Fin (Max (set (fin_values (keep pres ?idx)))))))))"
    using three by (simp add: derived_try_def inputs vm cnt cs mx and_then_def split: sum.splits)
  from lib(2) obtain SA where sa: "SA_from_SP g (keep sal ?idx) (keep pres ?idx) lon lat = Inr SA"
    unfolding raises_def body by (auto simp add: and_then_def split: sum.splits)
  from lib(2) obtain CT where ct: "CT_from_t g SA (keep temp ?idx) (keep pres ?idx) = Inr CT"
    unfolding raises_def body by (auto simp add: and_then_def sa split: sum.splits)
  from lib(2) obtain sg where sg: "sigma0 g SA CT = Inr sg"
    unfolding raises_def body by (auto simp add: and_then_def sa ct split: sum.splits)
  have res: "calculate_derived_parameters g pd
      = full_parameters SA CT sg (calculate_mld (keep temp ?idx) (keep pres ?idx))
          (Fin (Max (set (fin_values (keep pres ?idx)))))"
    by (simp add: calculate_derived_parameters_def body and_then_def sa ct sg)
  have l1: "length SA = length ?idx"
    using lib(1) sa unfolding length_preserving_def by (fastforce simp add: keep_def)
  have l2: "length CT = length ?idx"
    using lib(1) ct l1 unfolding length_preserving_def by fastforce
  have l3: "length sg = length ?idx"
    using lib(1) sg l1 unfolding length_preserving_def by fastforce
  show ?thesis
    unfolding Let_def using vm cs res l1 l2 l3 by (auto simp add: keep_def)
qed


definition four_levels :: pydict where
  "four_levels = profile_of (Fin 10) (Fin 60)
     [PyFloat (Fin 5), PyFloat (Fin 10), PyFloat (Fin 20), PyFloat (Fin 30)]
     [PyFloat (Fin 20), PyFloat NaN, PyFloat (Fin 18), PyFloat (Fin 17)]
     [PyFloat (Fin 35), PyFloat (Fin 35), PyFloat (Fin 35), PyFloat (Fin 35)]"

lemma upt_4: "[0 ..< 4] = [0, 1, 2, 3]" "[0 ..< 3] = [0, 1, 2]"
  by (simp_all add: upt_rec)

theorem derived_alignment_witness:
  "length_preserving gsw_plain \<and> \<not> raises gsw_plain four_levels
   \<and> valid_indices [Fin 20, NaN, Fin 18, Fin 17] [Fin 35, Fin 35, Fin 35, Fin 35]
        [Fin 5, Fin 10, Fin 20, Fin 30] = [0, 2, 3]
   \<and> calculate_derived_parameters gsw_plain four_levels
       = full_parameters [Fin 35, Fin 35, Fin 35] [Fin 35, Fin 35, Fin 35] [Fin 35, Fin 35, Fin 35]
           (Fin 20) (Fin 30)"
proof -
  let ?t = "[Fin 20, NaN, Fin 18, Fin 17]" and ?s = "[Fin 35, Fin 35, Fin 35, Fin 35]"
    and ?p = "[Fin 5, Fin 10, Fin 20, Fin 30]"
  have a: "load_inputs four_levels
           = Inr (?t, ?s, ?p, Scalar (PyFloat (Fin 10)), Scalar (PyFloat (Fin 60)))"
    by (simp add: four_levels_def eval_defs)
  have b: "valid_indices ?t ?s ?p = [0, 2, 3]"
    by (simp add: valid_indices_def jointly_valid_def upt_4)
  have c: "length_preserving gsw_plain"
    by (simp add: length_preserving_def gsw_plain_def)
  have d: "\<not> raises gsw_plain four_levels"
    by (simp add: raises_def four_levels_def gsw_plain_def eval_defs)
  have e: "calculate_mld (keep ?t [0, 2, 3]) (keep ?p [0, 2, 3]) = Fin 20"
    by code_simp
  have e': "calculate_mld [Fin 20, Fin 18, Fin 17] [Fin 5, Fin 20, Fin 30] = Fin 20"
    by code_simp
  have f: "Max (set (fin_values (keep ?p [0, 2, 3]))) = 30"
    by (simp add: keep_def)
  from derived_alignment [OF a _ _ _ c d] b
  obtain SA CT sg where r: "calculate_derived_parameters gsw_plain four_levels
       = full_parameters SA CT sg (calculate_mld (keep ?t [0, 2, 3]) (keep ?p [0, 2, 3]))
           (Fin (Max (set (fin_values (keep ?p [0, 2, 3])))))"
    by (auto simp add: Let_def)
  have g: "calculate_derived_parameters gsw_plain four_levels
       = full_parameters [Fin 35, Fin 35, Fin 35] [Fin 35, Fin 35, Fin 35] [Fin 35, Fin 35, Fin 35]
           (Fin 20) (Fin 30)"
    by (simp add: calculate_derived_parameters_def four_levels_def gsw_plain_def eval_defs e')
  from b c d g r show ?thesis by simp
qed

text \<open>
  Without the guard on the number of valid samples the statement fails: with two
  jointly valid samples, whose deepest pressure is 20, the calculator answers with the
  fallback, where \<open>max_depth\<close> is 0 and no derived sequence exists.
\<close>

theorem max_depth_counterexample:
  "load_inputs two_valid
     = Inr ([Fin 20, NaN, Fin 18], [Fin 35, Fin 35, Fin 35], [Fin 5, Fin 10, Fin 20],
            Scalar (PyFloat (Fin 10)), Scalar (PyFloat (Fin 60)))
   \<and> valid_indices [Fin 20, NaN, Fin 18] [Fin 35, Fin 35, Fin 35] [Fin 5, Fin 10, Fin 20] = [0, 2]
   \<and> Max (set (fin_values (keep [Fin 5, Fin 10, Fin 20] [0, 2]))) = 20
   \<and> map_of (calculate_derived_parameters gsw_plain two_valid) ''max_depth'' = Some (Scalar (PyInt 0))
   \<and> map_of (calculate_derived_parameters gsw_plain two_valid) ''absolute_salinity'' = None"
  by (simp add: two_valid_def eval_defs valid_indices_def jointly_valid_def upt_4 keep_def
      calculate_derived_parameters_def fallback_parameters_def)

section \<open>Fallback of the calculator\<close>

text \<open>
  The derived fields as section 4.2 of the specification gives them, for three arrays of
  a common length: the three calls of the seawater library on the jointly valid samples,
  the mixed-layer depth of the valid temperature and pressure samples, and the maximum
  valid pressure; the fallback when fewer than 3 samples are jointly valid or the library
  raises.
\<close>

definition seawater ::
  "gsw \<Rightarrow> pyfloat list \<Rightarrow> pyfloat list \<Rightarrow> pyfloat list \<Rightarrow> pyvalue \<Rightarrow> pyvalue \<Rightarrow>
   error + (pyfloat list \<times> pyfloat list \<times> pyfloat list)" where
  "seawater g temp sal pres lon lat =
     and_then (SA_from_SP g sal pres lon lat) (\<lambda>SA.
     and_then (CT_from_t g SA temp pres) (\<lambda>CT.
     and_then (sigma0 g SA CT) (\<lambda>sg.
     Inr (SA, CT, sg))))"

definition derived_fields ::
  "gsw \<Rightarrow> pyfloat list \<Rightarrow> pyfloat list \<Rightarrow> pyfloat list \<Rightarrow> pyvalue \<Rightarrow> pyvalue \<Rightarrow> pydict" where
  "derived_fields g temp sal pres lon lat =
     (let idx = valid_indices temp sal pres;
          t = keep temp idx; s = keep sal idx; p = keep pres idx
      in if length idx < 3 then fallback_parameters
         else case seawater g t s p lon lat of
                Inl e \<Rightarrow> fallback_parameters
              | Inr (SA, CT, sg) \<Rightarrow>
                  full_parameters SA CT sg (calculate_mld t p) (Fin (Max (set (fin_values p)))))"

lemma clean_samples_lengths:
  "clean_samples temp sal pres valid = Inr x \<Longrightarrow>
   length temp = length valid \<and> length sal = length valid \<and> length pres = length valid"
  by (auto simp add: clean_samples_def bool_index_def and_then_def split: if_splits)

lemma unequal_lengths_fallback:
  assumes "load_inputs pd = Inr (temp, sal, pres, lat, lon)"
    and "\<not> (length temp = length sal \<and> length sal = length pres)"
  shows "calculate_derived_parameters g pd = fallback_parameters"
proof (cases "valid_mask temp sal pres")
  case (Inl e)
  then show ?thesis
    by (simp add: calculate_derived_parameters_def derived_try_def assms(1) and_then_def)
next
  case (Inr valid)
  show ?thesis
  proof (cases "clean_samples temp sal pres valid")
    case (Inl e)
    with Inr show ?thesis
      by (simp add: calculate_derived_parameters_def derived_try_def assms(1) and_then_def)
  next
    case (Inr x)
    from clean_samples_lengths [OF this] assms(2) show ?thesis by simp
  qed
qed

lemma equal_lengths_fields:
  assumes inputs: "load_inputs pd = Inr (temp, sal, pres, lat, lon)"
    and len: "length temp = length sal" "length sal = length pres"
  shows "calculate_derived_parameters g pd = derived_fields g temp sal pres lon lat"
proof -
  let ?idx = "valid_indices temp sal pres"
  let ?m = "map (jointly_valid temp sal pres) [0 ..< length temp]"
  have vm: "valid_mask temp sal pres = Inr ?m"
    using len by (rule valid_mask_equal_length)
  have cnt: "np_sum ?m = length ?idx"
    by (simp add: np_sum_map valid_indices_def)
  have cs: "clean_samples temp sal pres ?m = Inr (keep temp ?idx, keep sal ?idx, keep pres ?idx)"
    using len by (rule clean_samples_keep)
  show ?thesis
  proof (cases "length ?idx < 3")
    case True
    then show ?thesis
      by (simp add: calculate_derived_parameters_def derived_try_def inputs vm cnt and_then_def
          derived_fields_def)
  next
    case False
    then have ne: "keep pres ?idx \<noteq> []"
      by (auto simp add: keep_def)
    have mx: "np_max (keep pres ?idx) = Inr (Fin (Max (set (fin_values (keep pres ?idx)))))"
      using keep_valid_pressure [of temp pres sal] len ne by (intro np_max_valid) simp_all
    from False show ?thesis
      by (simp add: calculate_derived_parameters_def derived_try_def inputs vm cnt cs mx
          and_then_def derived_fields_def seawater_def Let_def split: sum.splits)
  qed
qed

text \<open>
  C4. The calculator returns a dictionary and never an error. When an input is missing or
  not an array of numbers, which raises an exception, and when the three arrays differ in
  length, which raises one or leaves fewer than 3 valid samples, it returns the fallback
  \<open>{max_depth: 0, mixed_layer_depth: 0}\<close>. For three arrays of a common length it
  returns the fallback exactly when fewer than 3 samples are jointly valid or a call of
  the seawater library on the valid samples raises, and in every other case the full set
  of derived fields: the three sequences that the library returns for the valid samples,
  their mixed-layer depth and the maximum valid pressure.
\<close>

theorem calculate_derived_parameters_fallback:
  "(\<forall>e. load_inputs pd = Inl e \<longrightarrow> calculate_derived_parameters g pd = fallback_parameters)
   \<and> (\<forall>temp sal pres lat lon.
         load_inputs pd = Inr (temp, sal, pres, lat, lon)
         \<and> \<not> (length temp = length sal \<and> length sal = length pres)
         \<longrightarrow> calculate_derived_parameters g pd = fallback_parameters)
   \<and> (\<forall>temp sal pres lat lon.
         load_inputs pd = Inr (temp, sal, pres, lat, lon)
         \<and> length temp = length sal \<and> length sal = length pres
         \<longrightarrow> calculate_derived_parameters g pd = derived_fields g temp sal pres lon lat)
   \<and> (\<forall>temp sal pres lat lon.
         load_inputs pd = Inr (temp, sal, pres, lat, lon)
         \<and> length temp = length sal \<and> length sal = length pres
         \<longrightarrow> (calculate_derived_parameters g pd = fallback_parameters
              \<longleftrightarrow> length (valid_indices temp sal pres) < 3
                  \<or> (\<exists>e. seawater g (keep temp (valid_indices temp sal pres))
                             (keep sal (valid_indices temp sal pres))
                             (keep pres (valid_indices temp sal pres)) lon lat = Inl e)))"
proof (intro conjI allI impI)
  fix e
  assume "load_inputs pd = Inl e"
  then show "calculate_derived_parameters g pd = fallback_parameters"
    by (simp add: calculate_derived_parameters_def derived_try_def and_then_def)
next
  fix temp sal pres lat lon
  assume "load_inputs pd = Inr (temp, sal, pres, lat, lon)
          \<and> \<not> (length temp = length sal \<and> length sal = length pres)"
  then show "calculate_derived_parameters g pd = fallback_parameters"
    using unequal_lengths_fallback [of pd temp sal pres lat lon g] by blast
next
  fix temp sal pres lat lon
  assume "load_inputs pd = Inr (temp, sal, pres, lat, lon)
          \<and> length temp = length sal \<and> length sal = length pres"
  then show "calculate_derived_parameters g pd = derived_fields g temp sal pres lon lat"
    using equal_lengths_fields [of pd temp sal pres lat lon g] by blast
next
  fix temp sal pres lat lon
  assume "load_inputs pd = Inr (temp, sal, pres, lat, lon)
          \<and> length temp = length sal \<and> length sal = length pres"
  then have eq: "calculate_derived_parameters g pd = derived_fields g temp sal pres lon lat"
    using equal_lengths_fields [of pd temp sal pres lat lon g] by blast
  have "derived_fields g temp sal pres lon lat = fallback_parameters
        \<longleftrightarrow> length (valid_indices temp sal pres) < 3
            \<or> (\<exists>e. seawater g (keep temp (valid_indices temp sal pres))
                       (keep sal (valid_indices temp sal pres))
                       (keep pres (valid_indices temp sal pres)) lon lat = Inl e)"
    by (auto simp add: derived_fields_def Let_def full_not_fallback split: sum.splits)
  with eq show "calculate_derived_parameters g pd = fallback_parameters
        \<longleftrightarrow> length (valid_indices temp sal pres) < 3
            \<or> (\<exists>e. seawater g (keep temp (valid_indices temp sal pres))
                       (keep sal (valid_indices temp sal pres))
                       (keep pres (valid_indices temp sal pres)) lon lat = Inl e)"
    by simp
qed

text \<open>
  Five profiles: three valid levels; one level without temperature; a library that
  raises; a temperature array shorter than the other two; no temperature at all.
\<close>

definition short_temperature :: pydict where
  "short_temperature = profile_of (Fin 10) (Fin 60)
     [PyFloat (Fin 5), PyFloat (Fin 10), PyFloat (Fin 20)]
     [PyFloat (Fin 20)]
     [PyFloat (Fin 35), PyFloat (Fin 35), PyFloat (Fin 35)]"

definition no_temperature :: pydict where
  "no_temperature = [(''latitude'', Scalar (PyFloat (Fin 10))),
     (''longitude'', Scalar (PyFloat (Fin 60)))]"

lemma three_levels_mld: "calculate_mld [Fin 20, Fin 19, Fin 18] [Fin 5, Fin 10, Fin 20] = Fin 10"
  by code_simp

theorem calculate_derived_parameters_fallback_witness:
  "calculate_derived_parameters gsw_plain three_levels
     = full_parameters [Fin 35, Fin 35, Fin 35] [Fin 35, Fin 35, Fin 35] [Fin 35, Fin 35, Fin 35]
         (Fin 10) (Fin 20)
   \<and> calculate_derived_parameters gsw_plain two_valid = fallback_parameters
   \<and> calculate_derived_parameters gsw_raising three_levels = fallback_parameters
   \<and> calculate_derived_parameters gsw_plain short_temperature = fallback_parameters
   \<and> calculate_derived_parameters gsw_plain no_temperature = fallback_parameters"
proof -
  let ?t = "[Fin 20, Fin 19, Fin 18]" and ?s = "[Fin 35, Fin 35, Fin 35]"
    and ?p = "[Fin 5, Fin 10, Fin 20]"
  let ?lat = "Scalar (PyFloat (Fin 10))" and ?lon = "Scalar (PyFloat (Fin 60))"
  have i3: "load_inputs three_levels = Inr (?t, ?s, ?p, ?lat, ?lon)"
    by (simp add: three_levels_def eval_defs)
  have i2: "load_inputs two_valid = Inr ([Fin 20, NaN, Fin 18], ?s, ?p, ?lat, ?lon)"
    by (simp add: two_valid_def eval_defs)
  have i1: "load_inputs short_temperature = Inr ([Fin 20], ?s, ?p, ?lat, ?lon)"
    by (simp add: short_temperature_def eval_defs)
  have i0: "load_inputs no_temperature = Inl KeyError"
    by (simp add: no_temperature_def eval_defs)
  have v3: "valid_indices ?t ?s ?p = [0, 1, 2]"
    by (simp add: valid_indices_def jointly_valid_def upt_4)
  have v2: "valid_indices [Fin 20, NaN, Fin 18] ?s ?p = [0, 2]"
    by (simp add: valid_indices_def jointly_valid_def upt_4)
  note t3 = calculate_derived_parameters_fallback [of three_levels gsw_plain]
  note r3 = calculate_derived_parameters_fallback [of three_levels gsw_raising]
  note t2 = calculate_derived_parameters_fallback [of two_valid gsw_plain]
  note t1 = calculate_derived_parameters_fallback [of short_temperature gsw_plain]
  note t0 = calculate_derived_parameters_fallback [of no_temperature gsw_plain]
  have l3: "length ?t = length ?s \<and> length ?s = length ?p"
    and l2: "length [Fin 20, NaN, Fin 18 :: pyfloat] = length ?s \<and> length ?s = length ?p"
    and l1: "\<not> (length [Fin 20 :: pyfloat] = length ?s \<and> length ?s = length ?p)"
    by simp_all
  from t3 i3 l3 have "calculate_derived_parameters gsw_plain three_levels
     = derived_fields gsw_plain ?t ?s ?p ?lon ?lat"
    by blast
  then have a: "calculate_derived_parameters gsw_plain three_levels
     = full_parameters ?s ?s ?s (Fin 10) (Fin 20)"
    by (simp add: derived_fields_def v3 keep_def seawater_def gsw_plain_def and_then_def
        three_levels_mld)
  from t2 i2 l2 have "calculate_derived_parameters gsw_plain two_valid = fallback_parameters
     \<longleftrightarrow> length (valid_indices [Fin 20, NaN, Fin 18] ?s ?p) < 3
         \<or> (\<exists>e. seawater gsw_plain (keep [Fin 20, NaN, Fin 18] (valid_indices [Fin 20, NaN, Fin 18] ?s ?p))
                    (keep ?s (valid_indices [Fin 20, NaN, Fin 18] ?s ?p))
                    (keep ?p (valid_indices [Fin 20, NaN, Fin 18] ?s ?p)) ?lon ?lat = Inl e)"
    by blast
  then have b: "calculate_derived_parameters gsw_plain two_valid = fallback_parameters"
    by (simp add: v2)
  from r3 i3 l3 have "calculate_derived_parameters gsw_raising three_levels = fallback_parameters
     \<longleftrightarrow> length (valid_indices ?t ?s ?p) < 3
         \<or> (\<exists>e. seawater gsw_raising (keep ?t (valid_indices ?t ?s ?p))
                    (keep ?s (valid_indices ?t ?s ?p))
                    (keep ?p (valid_indices ?t ?s ?p)) ?lon ?lat = Inl e)"
    by blast
  then have c: "calculate_derived_parameters gsw_raising three_levels = fallback_parameters"
    by (simp add: v3 keep_def seawater_def gsw_raising_def and_then_def)
  from t1 i1 l1 have d: "calculate_derived_parameters gsw_plain short_temperature
     = fallback_parameters"
    by blast
  from t0 i0 have e: "calculate_derived_parameters gsw_plain no_temperature
     = fallback_parameters"
    by blast
  from a b c d e show ?thesis by simp
qed

section \<open>Profile sanitizer\<close>

text \<open>
  \<^verbatim>\<open>pd.isna\<close> on a scalar: true for \<^verbatim>\<open>None\<close>, for the float not-a-number and for the
  missing timestamp \<^verbatim>\<open>NaT\<close>.
\<close>

fun pd_isna :: "scalar \<Rightarrow> bool" where
  "pd_isna PyNone = True"
| "pd_isna (PyFloat f) = isnan f"
| "pd_isna PyNaT = True"
| "pd_isna _ = False"

text \<open>
  \<^verbatim>\<open>ArgoNetCDFProcessor._clean_profile_data\<close>: the loop over the items of the dictionary
  assigns to the key it visits; \<open>clean_step\<close> is its body.
\<close>

definition clean_step :: "string \<times> pyvalue \<Rightarrow> pydict \<Rightarrow> pydict" where
  "clean_step item profile_data =
     (case item of
        (key, PyList value) \<Rightarrow>
          dict_setitem key (PyList (map (\<lambda>x. if pd_isna x then PyNone else x) value)) profile_data
      | (key, Scalar value) \<Rightarrow>
          if pd_isna value then dict_setitem key (Scalar PyNone) profile_data else profile_data)"

definition clean_profile_data :: "pydict \<Rightarrow> pydict" where
  "clean_profile_data profile_data = fold clean_step profile_data profile_data"

text \<open>What the sanitizer does to one value, and the not-a-number test on values.\<close>

fun clean_value :: "pyvalue \<Rightarrow> pyvalue" where
  "clean_value (PyList value) = PyList (map (\<lambda>x. if pd_isna x then PyNone else x) value)"
| "clean_value (Scalar value) = (if pd_isna value then Scalar PyNone else Scalar value)"

fun is_nan :: "scalar \<Rightarrow> bool" where
  "is_nan (PyFloat f) = isnan f"
| "is_nan _ = False"

fun has_nan :: "pyvalue \<Rightarrow> bool" where
  "has_nan (Scalar s) = is_nan s"
| "has_nan (PyList xs) = list_ex is_nan xs"

definition nan_free :: "pydict \<Rightarrow> bool" where
  "nan_free d = (\<not> list_ex (\<lambda>item. has_nan (snd item)) d)"

lemma update_at_key:
  "key \<notin> fst ` set pre \<Longrightarrow>
   AList.update key v (pre @ (key, v0) # post) = pre @ (key, v) # post"
  by (induction pre) auto

lemma clean_step_at_key:
  assumes "key \<notin> fst ` set pre"
  shows "clean_step (key, v) (pre @ (key, v) # post) = pre @ (key, clean_value v) # post"
proof (cases v)
  case (Scalar s)
  with assms show ?thesis
    by (simp add: clean_step_def dict_setitem_def update_at_key)
next
  case (PyList xs)
  with assms show ?thesis
    by (simp add: clean_step_def dict_setitem_def update_at_key)
qed

lemma fold_clean_step:
  "distinct (map fst (pre @ xs)) \<Longrightarrow>
   fold clean_step xs (map (\<lambda>(k, v). (k, clean_value v)) pre @ xs)
   = map (\<lambda>(k, v). (k, clean_value v)) (pre @ xs)"
proof (induction xs arbitrary: pre)
  case Nil
  then show ?case by simp
next
  case (Cons item xs)
  obtain key v where item: "item = (key, v)" by (cases item)
  let ?cl = "\<lambda>(k, v). (k, clean_value v)"
  from Cons.prems item have "key \<notin> fst ` set (map ?cl pre)"
    by (auto simp add: image_iff)
  then have step: "clean_step item (map ?cl pre @ item # xs) = map ?cl (pre @ [item]) @ xs"
    unfolding item by (simp add: clean_step_at_key del: fst_conv)
  from Cons.prems have "distinct (map fst ((pre @ [item]) @ xs))" by simp
  from Cons.IH [OF this] step show ?case by simp
qed

lemma clean_profile_data_map:
  "distinct (map fst d) \<Longrightarrow> clean_profile_data d = map (\<lambda>(k, v). (k, clean_value v)) d"
  using fold_clean_step [of "[]" d] by (simp add: clean_profile_data_def)

lemma clean_value_no_nan: "\<not> has_nan (clean_value v)"
proof (cases v)
  case (Scalar s)
  then show ?thesis by (cases s) auto
next
  case (PyList xs)
  have one: "\<not> is_nan (if pd_isna x then PyNone else x)" for x
    by (cases x) auto
  have "\<not> list_ex is_nan (map (\<lambda>x. if pd_isna x then PyNone else x) xs)"
    by (induction xs) (simp_all add: one del: if_split)
  with PyList show ?thesis by simp
qed

lemma clean_value_idem: "clean_value (clean_value v) = clean_value v"
  by (cases v) auto

text \<open>
  C6. For every profile dictionary (distinct keys), one pass of the sanitizer keeps the
  keys and replaces every not-a-number element of a list value and every not-a-number
  scalar value by \<^verbatim>\<open>None\<close>, so that the result holds no not-a-number; a second pass
  changes nothing.
\<close>

theorem clean_profile_data_idempotent:
  assumes "distinct (map fst d)"
  shows "clean_profile_data d = map (\<lambda>(k, v). (k, clean_value v)) d
         \<and> nan_free (clean_profile_data d)
         \<and> clean_profile_data (clean_profile_data d) = clean_profile_data d"
proof -
  let ?cl = "\<lambda>(k, v). (k, clean_value v)"
  have m: "clean_profile_data d = map ?cl d"
    using assms by (rule clean_profile_data_map)
  have keys: "map fst (map ?cl d) = map fst d"
    by (induction d) auto
  have "nan_free (map ?cl d)"
    by (auto simp add: nan_free_def list_ex_iff clean_value_no_nan)
  moreover have "distinct (map fst (map ?cl d))"
    using assms by (simp only: keys)
  then have "clean_profile_data (map ?cl d) = map ?cl (map ?cl d)"
    by (rule clean_profile_data_map)
  moreover have "map ?cl (map ?cl d) = map ?cl d"
    by (induction d) (auto simp add: clean_value_idem)
  ultimately show ?thesis using m by simp
qed

definition dirty_profile :: pydict where
  "dirty_profile =
     [(''latitude'', Scalar (PyFloat NaN)),
      (''measurement_date'', Scalar PyNaT),
      (''platform_number'', Scalar (PyStr ''2900123'')),
      (''temperature'', PyList [PyFloat (Fin 20), PyFloat NaN, PyNone])]"

theorem clean_profile_data_idempotent_witness:
  "distinct (map fst dirty_profile)
   \<and> clean_profile_data dirty_profile
       = [(''latitude'', Scalar PyNone),
          (''measurement_date'', Scalar PyNone),
          (''platform_number'', Scalar (PyStr ''2900123'')),
          (''temperature'', PyList [PyFloat (Fin 20), PyNone, PyNone])]
   \<and> nan_free (clean_profile_data dirty_profile)
   \<and> clean_profile_data (clean_profile_data dirty_profile) = clean_profile_data dirty_profile"
proof -
  have k: "distinct (map fst dirty_profile)"
    by (simp add: dirty_profile_def)
  have c: "clean_profile_data dirty_profile
       = [(''latitude'', Scalar PyNone),
          (''measurement_date'', Scalar PyNone),
          (''platform_number'', Scalar (PyStr ''2900123'')),
          (''temperature'', PyList [PyFloat (Fin 20), PyNone, PyNone])]"
    by (simp add: dirty_profile_def clean_profile_data_def clean_step_def dict_setitem_def)
  note t = clean_profile_data_idempotent [OF k]
  from t have n: "nan_free (clean_profile_data dirty_profile)" by (rule conjunct1 [OF conjunct2])
  from t have i: "clean_profile_data (clean_profile_data dirty_profile)
      = clean_profile_data dirty_profile" by (rule conjunct2 [OF conjunct2])
  show ?thesis by (intro conjI) (rule k c n i)+
qed

section \<open>Profile extractor\<close>

text \<open>
  The dataset that \<^verbatim>\<open>xr.open_dataset\<close> returns, as far as the processor reads it: for
  each variable its first row \<^verbatim>\<open>values[0]\<close>, or \<open>None\<close> when the file has no such
  variable; the file has at least one profile. A numeric variable holds a numpy integer
  or float; an integer variable with missing values is decoded to floats, its missing
  values to not-a-number. For the platform number the dataset holds the text that
  \<^verbatim>\<open>str\<close> gives for the first row, which for a value of bytes is the text
  \<^verbatim>\<open>b'...'\<close>.
\<close>

datatype npnum = NpInt int | NpFloat pyfloat

record dataset =
  PLATFORM_NUMBER :: "string option"
  CYCLE_NUMBER :: "npnum option"
  LATITUDE :: "npnum option"
  LONGITUDE :: "npnum option"
  JULD :: "npnum option"
  PRES :: "pyfloat list option"
  TEMP :: "pyfloat list option"
  PSAL :: "pyfloat list option"
  TEMP_QC :: "string list option"
  PSAL_QC :: "string list option"

text \<open>
  \<^verbatim>\<open>int(x)\<close> truncates towards zero and raises ValueError on not-a-number;
  \<^verbatim>\<open>float(x)\<close> never fails on a number, and rounds an integer.
\<close>

fun py_int :: "npnum \<Rightarrow> error + int" where
  "py_int (NpInt i) = Inr i"
| "py_int (NpFloat (Fin r)) = Inr (if 0 \<le> r then \<lfloor>r\<rfloor> else \<lceil>r\<rceil>)"
| "py_int (NpFloat NaN) = Inl ValueError"

fun py_float :: "npnum \<Rightarrow> pyfloat" where
  "py_float (NpInt i) = Fin (round64 (of_int i))"
| "py_float (NpFloat f) = f"

text \<open>\<^verbatim>\<open>ds.NAME\<close> raises AttributeError when the dataset has no such variable.\<close>

fun ds_attr :: "'a option \<Rightarrow> error + 'a" where
  "ds_attr None = Inl AttributeError"
| "ds_attr (Some v) = Inr v"

definition is_space :: "char \<Rightarrow> bool" where
  "is_space c = (c \<in> set [CHR '' '', CHR 0x09, CHR 0x0A, CHR 0x0B, CHR 0x0C, CHR 0x0D])"

definition strip :: "string \<Rightarrow> string" where
  "strip s = rev (dropWhile is_space (rev (dropWhile is_space s)))"

text \<open>\<^verbatim>\<open>_extract_platform_number\<close>\<close>

definition extract_platform_number :: "dataset \<Rightarrow> string" where
  "extract_platform_number ds =
     (case PLATFORM_NUMBER ds of Some s \<Rightarrow> strip s | None \<Rightarrow> ''UNKNOWN'')"

text \<open>
  \<^verbatim>\<open>_extract_date\<close>. \<^verbatim>\<open>pd.Timedelta(days=days_since)\<close> converts the day count to
  whole nanoseconds in a signed 64-bit integer: it raises ValueError on not-a-number and
  an overflow error on a count that does not fit. The sum of the reference date
  1950-01-01 and the duration is a count of nanoseconds from 1970-01-01, 7305 days later,
  in a signed 64-bit integer as well, and raises when it does not fit. A timestamp is
  kept as its day count; the truncation to whole nanoseconds, and with it the answer for
  a count within a nanosecond of a bound, is not modelled. When the variable is absent
  the date is the wall-clock time \<open>now\<close>.
\<close>

definition ns_per_day :: real where
  "ns_per_day = 24 * 3600 * 10 ^ 9"

definition int64_max :: real where
  "int64_max = 2 ^ 63 - 1"

definition date_in_bounds :: "real \<Rightarrow> bool" where
  "date_in_bounds days_since =
     (\<bar>days_since * ns_per_day\<bar> \<le> int64_max
      \<and> \<bar>(days_since - 7305) * ns_per_day\<bar> \<le> int64_max)"

definition extract_date :: "real \<Rightarrow> dataset \<Rightarrow> error + scalar" where
  "extract_date now ds =
     (case JULD ds of
        Some v \<Rightarrow>
          (case py_float v of
             NaN \<Rightarrow> Inl ValueError
           | Fin days_since \<Rightarrow>
               if date_in_bounds days_since then Inr (PyTimestamp days_since)
               else Inl OverflowError)
      | None \<Rightarrow> Inr (PyTimestamp now))"

text \<open>Lines 31 to 42 of \<^verbatim>\<open>process_argo_file\<close>: the dictionary literal.\<close>

definition extract_profile :: "real \<Rightarrow> dataset \<Rightarrow> error + pydict" where
  "extract_profile now ds =
     and_then (case CYCLE_NUMBER ds of Some v \<Rightarrow> py_int v | None \<Rightarrow> Inr 0) (\<lambda>cycle.
     and_then (ds_attr (LATITUDE ds)) (\<lambda>lat.
     and_then (ds_attr (LONGITUDE ds)) (\<lambda>lon.
     and_then (extract_date now ds) (\<lambda>measurement_date.
     and_then (ds_attr (PRES ds)) (\<lambda>pres.
     and_then (ds_attr (TEMP ds)) (\<lambda>temp.
     and_then (ds_attr (PSAL ds)) (\<lambda>psal.
     Inr [(''platform_number'', Scalar (PyStr (extract_platform_number ds))),
          (''cycle_number'', Scalar (PyInt cycle)),
          (''latitude'', Scalar (PyFloat (py_float lat))),
          (''longitude'', Scalar (PyFloat (py_float lon))),
          (''measurement_date'', Scalar measurement_date),
          (''pressure_levels'', PyList (map PyFloat pres)),
          (''temperature'', PyList (map PyFloat temp)),
          (''salinity'', PyList (map PyFloat psal)),
          (''temp_qc'', PyList (case TEMP_QC ds of Some q \<Rightarrow> map PyStr q | None \<Rightarrow> [])),
          (''psal_qc'', PyList (case PSAL_QC ds of Some q \<Rightarrow> map PyStr q | None \<Rightarrow> []))])))))))"

text \<open>
  The comparisons of the region classifier are defined on numbers; on any other value
  Python raises TypeError.
\<close>

fun as_float :: "pyvalue \<Rightarrow> error + pyfloat" where
  "as_float (Scalar (PyFloat f)) = Inr f"
| "as_float (Scalar (PyInt i)) = Inr (Fin (of_int i))"
| "as_float _ = Inl TypeError"

text \<open>Lines 44 to 56: derived parameters, region, sanitizer.\<close>

definition process_dataset :: "gsw \<Rightarrow> real \<Rightarrow> dataset \<Rightarrow> error + pydict" where
  "process_dataset g now ds =
     and_then (extract_profile now ds) (\<lambda>profile_data.
     let derived_params = calculate_derived_parameters g profile_data;
         profile_data = dict_update profile_data derived_params in
     and_then (dict_getitem profile_data ''latitude'') (\<lambda>latv.
     and_then (dict_getitem profile_data ''longitude'') (\<lambda>lonv.
     and_then (as_float latv) (\<lambda>lat.
     and_then (as_float lonv) (\<lambda>lon.
     let profile_data =
           dict_setitem ''ocean_region'' (Scalar (PyStr (determine_ocean_region lat lon)))
             profile_data in
     Inr (clean_profile_data profile_data))))))"

text \<open>
  \<^verbatim>\<open>ArgoNetCDFProcessor.process_argo_file\<close>. The files are a parameter: a path has a
  dataset, or \<^verbatim>\<open>xr.open_dataset\<close> raises. Every exception is caught and answered with
  \<^verbatim>\<open>None\<close>.
\<close>

type_synonym files = "string \<Rightarrow> dataset option"

definition open_dataset :: "files \<Rightarrow> string \<Rightarrow> error + dataset" where
  "open_dataset fs file_path = (case fs file_path of None \<Rightarrow> Inl OSError | Some ds \<Rightarrow> Inr ds)"

definition process_argo_file :: "gsw \<Rightarrow> real \<Rightarrow> files \<Rightarrow> string \<Rightarrow> pydict option" where
  "process_argo_file g now fs file_path =
     (case and_then (open_dataset fs file_path) (process_dataset g now) of
        Inl e \<Rightarrow> None
      | Inr profile_data \<Rightarrow> Some profile_data)"

text \<open>
  The failures of the extractor: the file does not open, a required variable is absent,
  the cycle number is present and not a number, or the day count is present and not a
  number or beyond what a timestamp holds.
\<close>

definition required_absent :: "dataset \<Rightarrow> bool" where
  "required_absent ds =
     (LATITUDE ds = None \<or> LONGITUDE ds = None \<or> PRES ds = None \<or> TEMP ds = None
      \<or> PSAL ds = None)"

definition date_fails :: "dataset \<Rightarrow> bool" where
  "date_fails ds =
     (case JULD ds of
        None \<Rightarrow> False
      | Some v \<Rightarrow> (case py_float v of NaN \<Rightarrow> True | Fin days \<Rightarrow> \<not> date_in_bounds days))"

definition extraction_fails :: "files \<Rightarrow> string \<Rightarrow> bool" where
  "extraction_fails fs file_path =
     (case fs file_path of
        None \<Rightarrow> True
      | Some ds \<Rightarrow>
          required_absent ds \<or> CYCLE_NUMBER ds = Some (NpFloat NaN) \<or> date_fails ds)"

lemma py_int_raises: "(\<exists>e. py_int v = Inl e) \<longleftrightarrow> v = NpFloat NaN"
  by (cases v rule: py_int.cases) auto

lemma extract_date_raises: "(\<exists>e. extract_date now ds = Inl e) \<longleftrightarrow> date_fails ds"
  by (auto simp add: extract_date_def date_fails_def split: option.splits pyfloat.splits)

lemma extract_profile_raises:
  "(\<exists>e. extract_profile now ds = Inl e)
   \<longleftrightarrow> required_absent ds \<or> CYCLE_NUMBER ds = Some (NpFloat NaN) \<or> date_fails ds"
proof -
  have c: "(\<exists>e. (case CYCLE_NUMBER ds of Some v \<Rightarrow> py_int v | None \<Rightarrow> Inr 0) = Inl e)
           \<longleftrightarrow> CYCLE_NUMBER ds = Some (NpFloat NaN)"
    using py_int_raises by (cases "CYCLE_NUMBER ds") auto
  show ?thesis
  proof (cases "CYCLE_NUMBER ds = Some (NpFloat NaN)")
    case True
    then show ?thesis by (simp add: extract_profile_def and_then_def)
  next
    case False
    with c obtain cycle where cy:
      "(case CYCLE_NUMBER ds of Some v \<Rightarrow> py_int v | None \<Rightarrow> Inr 0) = Inr cycle"
      by (metis sum.exhaust_sel sum.collapse(1))
    show ?thesis
    proof (cases "extract_date now ds")
      case (Inl e)
      then have "date_fails ds"
        using extract_date_raises [of now ds] by blast
      with Inl cy show ?thesis
        by (cases "LATITUDE ds"; cases "LONGITUDE ds")
           (simp_all add: extract_profile_def and_then_def)
    next
      case (Inr date)
      then have "\<not> date_fails ds"
        using extract_date_raises [of now ds] by auto
      with Inr cy False show ?thesis
        by (cases "LATITUDE ds"; cases "LONGITUDE ds"; cases "PRES ds"; cases "TEMP ds";
            cases "PSAL ds")
           (simp_all add: extract_profile_def and_then_def required_absent_def)
    qed
  qed
qed

lemma extract_profile_keys:
  assumes "extract_profile now ds = Inr pd"
  shows "map fst pd = [''platform_number'', ''cycle_number'', ''latitude'', ''longitude'',
           ''measurement_date'', ''pressure_levels'', ''temperature'', ''salinity'',
           ''temp_qc'', ''psal_qc'']"
    and "\<exists>a. map_of pd ''latitude'' = Some (Scalar (PyFloat a))"
    and "\<exists>b. map_of pd ''longitude'' = Some (Scalar (PyFloat b))"
    and "map_of pd ''platform_number'' = Some (Scalar (PyStr (extract_platform_number ds)))"
    and "CYCLE_NUMBER ds = None \<Longrightarrow> map_of pd ''cycle_number'' = Some (Scalar (PyInt 0))"
  using assms
  by (auto simp add: extract_profile_def and_then_def split: sum.splits option.splits)

lemma derived_keys:
  "fst ` set (calculate_derived_parameters g pd)
   \<subseteq> {''absolute_salinity'', ''conservative_temperature'', ''potential_density'',
       ''mixed_layer_depth'', ''max_depth''}"
  unfolding calculate_derived_parameters_def derived_try_def
  by (auto simp add: and_then_def fallback_parameters_def full_parameters_def
      split: sum.splits prod.splits if_splits)

lemma dict_update_distinct:
  "distinct (map fst d) \<Longrightarrow> distinct (map fst (dict_update d other))"
proof (induction other arbitrary: d)
  case Nil
  then show ?case by (simp add: dict_update_def)
next
  case (Cons item other)
  from Cons.prems have "distinct (map fst (dict_setitem (fst item) (snd item) d))"
    by (simp add: dict_setitem_def distinct_update)
  from Cons.IH [OF this] show ?case
    by (simp add: dict_update_def case_prod_beta)
qed

lemma dict_update_other_key:
  "key \<notin> fst ` set other \<Longrightarrow> map_of (dict_update d other) key = map_of d key"
proof (induction other arbitrary: d)
  case Nil
  then show ?case by (simp add: dict_update_def)
next
  case (Cons item other)
  from Cons.prems have "map_of (dict_update (dict_setitem (fst item) (snd item) d) other) key
      = map_of (dict_setitem (fst item) (snd item) d) key"
    by (intro Cons.IH) simp
  also from Cons.prems have "\<dots> = map_of d key"
    by (simp add: dict_setitem_def update_conv')
  finally show ?case
    by (simp add: dict_update_def case_prod_beta)
qed

lemma clean_profile_data_lookup:
  "distinct (map fst d) \<Longrightarrow>
   map_of (clean_profile_data d) key = map_option clean_value (map_of d key)"
  by (simp add: clean_profile_data_map map_of_map)

lemma process_dataset_result:
  assumes "extract_profile now ds = Inr pd"
  shows "\<exists>region. process_dataset g now ds
           = Inr (clean_profile_data (dict_setitem ''ocean_region'' (Scalar (PyStr region))
                    (dict_update pd (calculate_derived_parameters g pd))))"
proof -
  let ?d = "dict_update pd (calculate_derived_parameters g pd)"
  from extract_profile_keys(2,3) [OF assms] obtain a b where
    "map_of pd ''latitude'' = Some (Scalar (PyFloat a))"
    "map_of pd ''longitude'' = Some (Scalar (PyFloat b))" by blast
  moreover have "''latitude'' \<notin> fst ` set (calculate_derived_parameters g pd)"
    "''longitude'' \<notin> fst ` set (calculate_derived_parameters g pd)"
    using derived_keys [of g pd] by auto
  ultimately have "dict_getitem ?d ''latitude'' = Inr (Scalar (PyFloat a))"
    "dict_getitem ?d ''longitude'' = Inr (Scalar (PyFloat b))"
    by (simp_all add: dict_getitem_def dict_update_other_key)
  then have "process_dataset g now ds
      = Inr (clean_profile_data (dict_setitem ''ocean_region''
               (Scalar (PyStr (determine_ocean_region a b))) ?d))"
    by (simp add: process_dataset_def assms and_then_def Let_def)
  then show ?thesis by blast
qed

lemma processed_lookup:
  assumes "extract_profile now ds = Inr pd"
    and "key \<notin> {''absolute_salinity'', ''conservative_temperature'', ''potential_density'',
           ''mixed_layer_depth'', ''max_depth'', ''ocean_region''}"
    and "process_dataset g now ds = Inr d"
  shows "map_of d key = map_option clean_value (map_of pd key)"
proof -
  let ?d = "dict_update pd (calculate_derived_parameters g pd)"
  from process_dataset_result [OF assms(1), of g] assms(3) obtain region where
    d: "d = clean_profile_data (dict_setitem ''ocean_region'' (Scalar (PyStr region)) ?d)"
    by auto
  have "distinct (map fst pd)"
    by (simp add: extract_profile_keys(1) [OF assms(1)])
  then have "distinct (map fst (dict_setitem ''ocean_region'' (Scalar (PyStr region)) ?d))"
    by (simp add: dict_setitem_def distinct_update dict_update_distinct)
  then have "map_of d key
      = map_option clean_value (map_of (dict_setitem ''ocean_region'' (Scalar (PyStr region)) ?d) key)"
    unfolding d by (rule clean_profile_data_lookup)
  also from assms(2) have "\<dots> = map_option clean_value (map_of ?d key)"
    by (simp add: dict_setitem_def update_conv')
  also from assms(2) derived_keys [of g pd] have "map_of ?d key = map_of pd key"
    by (intro dict_update_other_key) auto
  finally show ?thesis .
qed

text \<open>
  C7, amended. On a file with at least one profile, whose numbers are finite or
  not-a-number, the extractor raises nothing: it returns \<^verbatim>\<open>None\<close> exactly when the
  file does not open, a required variable (latitude, longitude, or one of the pressure,
  temperature and salinity arrays) is absent, the cycle number is present and not a
  number, or the day count is present and is not a number or lies beyond what a
  timestamp of 64-bit nanoseconds holds; otherwise it returns a profile, whose platform
  identifier is \<open>UNKNOWN\<close> when the file has none and whose cycle number is 0 when the
  file has none.
\<close>

theorem process_argo_file_outcome:
  "(process_argo_file g now fs file_path = None \<longleftrightarrow> extraction_fails fs file_path)
   \<and> (\<forall>ds d. fs file_path = Some ds \<and> process_argo_file g now fs file_path = Some d \<longrightarrow>
         (PLATFORM_NUMBER ds = None \<longrightarrow>
            map_of d ''platform_number'' = Some (Scalar (PyStr ''UNKNOWN'')))
         \<and> (CYCLE_NUMBER ds = None \<longrightarrow> map_of d ''cycle_number'' = Some (Scalar (PyInt 0))))"
proof (cases "fs file_path")
  case None
  then show ?thesis
    by (simp add: process_argo_file_def open_dataset_def and_then_def extraction_fails_def)
next
  case (Some ds)
  show ?thesis
  proof (cases "extract_profile now ds")
    case (Inl e)
    then have "required_absent ds \<or> CYCLE_NUMBER ds = Some (NpFloat NaN) \<or> date_fails ds"
      using extract_profile_raises [of now ds] by blast
    with Some Inl show ?thesis
      by (simp add: process_argo_file_def open_dataset_def and_then_def extraction_fails_def
          process_dataset_def)
  next
    case (Inr pd)
    then have ok: "\<not> (required_absent ds \<or> CYCLE_NUMBER ds = Some (NpFloat NaN)
                       \<or> date_fails ds)"
      using extract_profile_raises [of now ds] by auto
    from process_dataset_result [OF Inr, of g] obtain d where
      d: "process_dataset g now ds = Inr d" by blast
    have p: "map_of d ''platform_number'' = Some (Scalar (PyStr (extract_platform_number ds)))"
      using processed_lookup [OF Inr _ d, of "''platform_number''"] extract_profile_keys(4) [OF Inr]
      by simp
    have c: "CYCLE_NUMBER ds = None \<Longrightarrow> map_of d ''cycle_number'' = Some (Scalar (PyInt 0))"
      using processed_lookup [OF Inr _ d, of "''cycle_number''"] extract_profile_keys(5) [OF Inr]
      by simp
    have r: "process_argo_file g now fs file_path = Some d"
      using Some d by (simp add: process_argo_file_def open_dataset_def and_then_def)
    from ok Some have "\<not> extraction_fails fs file_path"
      by (simp add: extraction_fails_def)
    with r p c Some show ?thesis
      by (auto simp add: extract_platform_number_def)
  qed
qed

text \<open>
  A file with the profile of the scenario of the specification, measured 27000 days
  after the reference date, with no platform number and no cycle number; the same file
  with a day count that is not a number.
\<close>

definition scenario_dataset :: dataset where
  "scenario_dataset = \<lparr>PLATFORM_NUMBER = None, CYCLE_NUMBER = None,
     LATITUDE = Some (NpFloat (Fin (5 / 2))), LONGITUDE = Some (NpFloat (dbl (873 / 10))),
     JULD = Some (NpFloat (Fin 27000)),
     PRES = Some [Fin (5 / 2), Fin 10, Fin 20, Fin 50],
     TEMP = Some [Fin 28, dbl (279 / 10), Fin 26, Fin 20],
     PSAL = Some [dbl (342 / 10), dbl (343 / 10), dbl (348 / 10), dbl (351 / 10)],
     TEMP_QC = None, PSAL_QC = None\<rparr>"

definition scenario_files :: files where
  "scenario_files = (\<lambda>file_path. Some scenario_dataset)"

definition nan_date_files :: files where
  "nan_date_files = (\<lambda>file_path. Some (scenario_dataset\<lparr>JULD := Some (NpFloat NaN)\<rparr>))"

lemma scenario_date: "date_in_bounds 27000"
  by (simp add: date_in_bounds_def ns_per_day_def int64_max_def)

theorem process_argo_file_outcome_witness:
  "\<not> extraction_fails scenario_files ''profile.nc''
   \<and> (\<exists>d. process_argo_file gsw_plain 0 scenario_files ''profile.nc'' = Some d
          \<and> map_of d ''platform_number'' = Some (Scalar (PyStr ''UNKNOWN''))
          \<and> map_of d ''cycle_number'' = Some (Scalar (PyInt 0)))
   \<and> extraction_fails nan_date_files ''profile.nc''
   \<and> process_argo_file gsw_plain 0 nan_date_files ''profile.nc'' = None"
proof -
  note t = process_argo_file_outcome [of gsw_plain 0 scenario_files "''profile.nc''"]
  note n = process_argo_file_outcome [of gsw_plain 0 nan_date_files "''profile.nc''"]
  have s: "scenario_files ''profile.nc'' = Some scenario_dataset"
    by (simp add: scenario_files_def)
  have f: "\<not> extraction_fails scenario_files ''profile.nc''"
    by (simp add: extraction_fails_def required_absent_def date_fails_def scenario_files_def
        scenario_dataset_def scenario_date)
  with t obtain d where d: "process_argo_file gsw_plain 0 scenario_files ''profile.nc'' = Some d"
    by auto
  with t s have "map_of d ''platform_number'' = Some (Scalar (PyStr ''UNKNOWN''))"
    "map_of d ''cycle_number'' = Some (Scalar (PyInt 0))"
    by (simp_all add: scenario_dataset_def)
  moreover have g: "extraction_fails nan_date_files ''profile.nc''"
    by (simp add: extraction_fails_def date_fails_def nan_date_files_def)
  moreover from n g have "process_argo_file gsw_plain 0 nan_date_files ''profile.nc'' = None"
    by simp
  ultimately show ?thesis using f d by blast
qed

text \<open>
  Absence of a required variable is not the only failure: a file with every required
  variable and a cycle number that is not a number is answered with \<^verbatim>\<open>None\<close>, since
  \<^verbatim>\<open>int\<close> raises ValueError.
\<close>

definition nan_cycle_dataset :: dataset where
  "nan_cycle_dataset = scenario_dataset\<lparr>CYCLE_NUMBER := Some (NpFloat NaN)\<rparr>"

definition nan_cycle_files :: files where
  "nan_cycle_files = (\<lambda>file_path. Some nan_cycle_dataset)"

theorem process_argo_file_counterexample:
  "nan_cycle_files ''profile.nc'' = Some nan_cycle_dataset
   \<and> \<not> required_absent nan_cycle_dataset
   \<and> process_argo_file gsw_plain 0 nan_cycle_files ''profile.nc'' = None"
  by (simp add: nan_cycle_files_def nan_cycle_dataset_def scenario_dataset_def
      required_absent_def process_argo_file_def open_dataset_def process_dataset_def
      extract_profile_def and_then_def)

section \<open>The Indian Ocean scenario\<close>

lemma scenario_region:
  "determine_ocean_region (Fin (5 / 2)) (dbl (873 / 10)) = ''Indian Ocean''"
  by code_simp

lemma scenario_mld:
  "calculate_mld [Fin 28, dbl (279 / 10), Fin 26, Fin 20] [Fin (5 / 2), Fin 10, Fin 20, Fin 50]
   = Fin 20"
  by code_simp

text \<open>
  C3. For a file whose first profile has pressure [2.5, 10, 20, 50], temperature
  [28.0, 27.9, 26.0, 20.0], salinity [34.2, 34.3, 34.8, 35.1], latitude 2.5 and longitude
  87.3, whose cycle number and day count, when present, can be read, and on which the
  seawater library raises no exception, the classifier gives \<open>Indian Ocean\<close>, the
  calculator gives mixed-layer depth 20 and maximum depth 50, and the processed profile
  holds these three values.
\<close>

theorem scenario_indian_ocean:
  assumes lat: "LATITUDE ds = Some (NpFloat (Fin (5 / 2)))"
    and lon: "LONGITUDE ds = Some (NpFloat (dbl (873 / 10)))"
    and pres: "PRES ds = Some [Fin (5 / 2), Fin 10, Fin 20, Fin 50]"
    and temp: "TEMP ds = Some [Fin 28, dbl (279 / 10), Fin 26, Fin 20]"
    and psal: "PSAL ds = Some [dbl (342 / 10), dbl (343 / 10), dbl (348 / 10), dbl (351 / 10)]"
    and cycle: "CYCLE_NUMBER ds \<noteq> Some (NpFloat NaN)"
    and date: "\<not> date_fails ds"
    and sa: "SA_from_SP g [dbl (342 / 10), dbl (343 / 10), dbl (348 / 10), dbl (351 / 10)]
               [Fin (5 / 2), Fin 10, Fin 20, Fin 50]
               (Scalar (PyFloat (dbl (873 / 10)))) (Scalar (PyFloat (Fin (5 / 2)))) = Inr SA"
    and ct: "CT_from_t g SA [Fin 28, dbl (279 / 10), Fin 26, Fin 20]
               [Fin (5 / 2), Fin 10, Fin 20, Fin 50] = Inr CT"
    and sg: "sigma0 g SA CT = Inr sg"
    and opened: "fs file_path = Some ds"
  shows "determine_ocean_region (Fin (5 / 2)) (dbl (873 / 10)) = ''Indian Ocean''
    \<and> calculate_mld [Fin 28, dbl (279 / 10), Fin 26, Fin 20]
        [Fin (5 / 2), Fin 10, Fin 20, Fin 50] = Fin 20
    \<and> (\<exists>pd. extract_profile now ds = Inr pd
          \<and> calculate_derived_parameters g pd = full_parameters SA CT sg (Fin 20) (Fin 50))
    \<and> (\<exists>d. process_argo_file g now fs file_path = Some d
          \<and> map_of d ''ocean_region'' = Some (Scalar (PyStr ''Indian Ocean''))
          \<and> map_of d ''mixed_layer_depth'' = Some (Scalar (PyFloat (Fin 20)))
          \<and> map_of d ''max_depth'' = Some (Scalar (PyFloat (Fin 50))))"
proof -
  let ?t = "[Fin 28, dbl (279 / 10), Fin 26, Fin 20]"
  let ?p = "[Fin (5 / 2), Fin 10, Fin 20, Fin 50]"
  note region = scenario_region
  note mld = scenario_mld
  from cycle obtain c where
    c: "(case CYCLE_NUMBER ds of Some v \<Rightarrow> py_int v | None \<Rightarrow> Inr 0) = Inr c"
    using py_int_raises by (cases "CYCLE_NUMBER ds") (auto, metis sum.exhaust_sel sum.collapse(1))
  from date obtain day where day: "extract_date now ds = Inr day"
    using extract_date_raises [of now ds] by (cases "extract_date now ds") auto
  define pd where "pd =
    [(''platform_number'', Scalar (PyStr (extract_platform_number ds))),
     (''cycle_number'', Scalar (PyInt c)),
     (''latitude'', Scalar (PyFloat (Fin (5 / 2)))),
     (''longitude'', Scalar (PyFloat (dbl (873 / 10)))),
     (''measurement_date'', Scalar day),
     (''pressure_levels'', PyList (map PyFloat ?p)),
     (''temperature'', PyList (map PyFloat ?t)),
     (''salinity'', PyList (map PyFloat
        [dbl (342 / 10), dbl (343 / 10), dbl (348 / 10), dbl (351 / 10)])),
     (''temp_qc'', PyList (case TEMP_QC ds of Some q \<Rightarrow> map PyStr q | None \<Rightarrow> [])),
     (''psal_qc'', PyList (case PSAL_QC ds of Some q \<Rightarrow> map PyStr q | None \<Rightarrow> []))]"
  have ex: "extract_profile now ds = Inr pd"
    by (simp add: extract_profile_def c day lat lon pres temp psal and_then_def pd_def)
  have mx: "np_max ?p = Inr (Fin 50)"
    by simp
  have body: "derived_try g pd = Inr (full_parameters SA CT sg (Fin 20) (Fin 50))"
    using sa ct sg mld by (simp add: pd_def eval_defs)
  then have der: "calculate_derived_parameters g pd = full_parameters SA CT sg (Fin 20) (Fin 50)"
    by (simp add: calculate_derived_parameters_def)
  from process_dataset_result [OF ex, of g] obtain d where
    d: "process_dataset g now ds = Inr d" by blast
  have out: "process_argo_file g now fs file_path = Some d"
    using opened d by (simp add: process_argo_file_def open_dataset_def and_then_def)
  let ?u = "dict_update pd (full_parameters SA CT sg (Fin 20) (Fin 50))"
  have u: "map_of ?u ''latitude'' = Some (Scalar (PyFloat (Fin (5 / 2))))"
    "map_of ?u ''longitude'' = Some (Scalar (PyFloat (dbl (873 / 10))))"
    "map_of ?u ''mixed_layer_depth'' = Some (Scalar (PyFloat (Fin 20)))"
    "map_of ?u ''max_depth'' = Some (Scalar (PyFloat (Fin 50)))"
    by (simp_all add: pd_def full_parameters_def dict_update_def dict_setitem_def update_conv')
  let ?r = "dict_setitem ''ocean_region'' (Scalar (PyStr ''Indian Ocean'')) ?u"
  have d_eq: "d = clean_profile_data ?r"
    using d by (simp add: process_dataset_def ex der and_then_def dict_getitem_def u region)
  have "distinct (map fst pd)"
    by (simp add: pd_def)
  then have dist: "distinct (map fst ?r)"
    by (simp add: dict_setitem_def distinct_update dict_update_distinct)
  have look: "map_of d key = map_option clean_value (map_of ?r key)" for key
    unfolding d_eq using dist by (rule clean_profile_data_lookup)
  have "map_of d ''ocean_region'' = Some (Scalar (PyStr ''Indian Ocean''))"
    "map_of d ''mixed_layer_depth'' = Some (Scalar (PyFloat (Fin 20)))"
    "map_of d ''max_depth'' = Some (Scalar (PyFloat (Fin 50)))"
    by (simp_all add: look dict_setitem_def update_conv' u)
  with region mld ex der out show ?thesis by blast
qed

theorem scenario_indian_ocean_witness:
  "\<not> date_fails scenario_dataset
   \<and> (\<exists>d. process_argo_file gsw_plain 0 scenario_files ''profile.nc'' = Some d
         \<and> map_of d ''ocean_region'' = Some (Scalar (PyStr ''Indian Ocean''))
         \<and> map_of d ''mixed_layer_depth'' = Some (Scalar (PyFloat (Fin 20)))
         \<and> map_of d ''max_depth'' = Some (Scalar (PyFloat (Fin 50))))"
proof -
  let ?s = "[dbl (342 / 10), dbl (343 / 10), dbl (348 / 10), dbl (351 / 10)]"
  have lib: "SA_from_SP gsw_plain ?s [Fin (5 / 2), Fin 10, Fin 20, Fin 50]
          (Scalar (PyFloat (dbl (873 / 10)))) (Scalar (PyFloat (Fin (5 / 2)))) = Inr ?s"
    "CT_from_t gsw_plain ?s [Fin 28, dbl (279 / 10), Fin 26, Fin 20]
          [Fin (5 / 2), Fin 10, Fin 20, Fin 50] = Inr ?s"
    "sigma0 gsw_plain ?s ?s = Inr ?s"
    by (simp_all add: gsw_plain_def)
  have date: "\<not> date_fails scenario_dataset"
    by (simp add: date_fails_def scenario_dataset_def scenario_date)
  have fields: "LATITUDE scenario_dataset = Some (NpFloat (Fin (5 / 2)))"
    "LONGITUDE scenario_dataset = Some (NpFloat (dbl (873 / 10)))"
    "PRES scenario_dataset = Some [Fin (5 / 2), Fin 10, Fin 20, Fin 50]"
    "TEMP scenario_dataset = Some [Fin 28, dbl (279 / 10), Fin 26, Fin 20]"
    "PSAL scenario_dataset = Some ?s"
    "CYCLE_NUMBER scenario_dataset \<noteq> Some (NpFloat NaN)"
    "scenario_files ''profile.nc'' = Some scenario_dataset"
    by (simp_all add: scenario_dataset_def scenario_files_def)
  from scenario_indian_ocean [where ds = scenario_dataset and g = gsw_plain
      and fs = scenario_files and file_path = "''profile.nc''" and now = 0
      and SA = "?s" and CT = "?s" and sg = "?s", OF fields(1-6) date lib fields(7)] date
  show ?thesis by blast
qed

section \<open>Ingestion pipeline\<close>

text \<open>
  The two stores and their environment. A row of the relational store is a profile with
  the identifier the store gave it. The vector-search service, the embedding model and the
  database server are outside the repository: whether they accept a write is a parameter,
  which may depend on what the store holds.
\<close>

record argo_row =
  row_id :: nat
  row_data :: pydict

record stores =
  vector_store :: "pydict list"
  sql_store :: "argo_row list"

record env =
  env_files :: files
  env_glob :: "string \<Rightarrow> error + string list"
  env_gsw :: gsw
  env_now :: real
  float_of_text :: "string \<Rightarrow> error + pyfloat"
  vector_accepts :: "pydict list \<Rightarrow> pydict \<Rightarrow> bool"
  sql_accepts :: "argo_row list \<Rightarrow> pydict \<Rightarrow> bool"

text \<open>
  \<^verbatim>\<open>d.get(key, default)\<close>, and \<^verbatim>\<open>float(x)\<close> on a value of a profile: a float
  is returned as it is, an integer is rounded to the nearest float and raises
  OverflowError beyond the range of floats, a text is parsed by the interpreter, which
  raises ValueError on a text that is not a number (the parser is the parameter
  \<open>parse\<close>), and any other value raises TypeError.
\<close>

definition dict_get :: "pydict \<Rightarrow> string \<Rightarrow> pyvalue \<Rightarrow> pyvalue" where
  "dict_get d key dflt = (case map_of d key of None \<Rightarrow> dflt | Some v \<Rightarrow> v)"

fun float_of :: "(string \<Rightarrow> error + pyfloat) \<Rightarrow> pyvalue \<Rightarrow> error + pyfloat" where
  "float_of parse (Scalar (PyFloat f)) = Inr f"
| "float_of parse (Scalar (PyInt i)) =
     (if \<bar>round64 (of_int i)\<bar> < 2 ^ 1024 then Inr (Fin (round64 (of_int i)))
      else Inl OverflowError)"
| "float_of parse (Scalar (PyStr s)) = parse s"
| "float_of parse _ = Inl TypeError"

text \<open>
  \<^verbatim>\<open>ArgoVectorDatabase.add_profile\<close> (vector_db.py): the summary is built without
  raising, the four numbers of the metadata are converted with \<^verbatim>\<open>float\<close>, and the
  document is added; any exception gives \<^verbatim>\<open>False\<close> and leaves the collection as it was.
\<close>

definition add_profile :: "env \<Rightarrow> stores \<Rightarrow> pydict \<Rightarrow> stores \<times> bool" where
  "add_profile e st profile_data =
     (case and_then (float_of (float_of_text e) (dict_get profile_data ''latitude'' (Scalar (PyInt 0)))) (\<lambda>lat.
           and_then (float_of (float_of_text e) (dict_get profile_data ''longitude'' (Scalar (PyInt 0)))) (\<lambda>lon.
           and_then (float_of (float_of_text e) (dict_get profile_data ''max_depth'' (Scalar (PyInt 0)))) (\<lambda>mx.
           and_then (float_of (float_of_text e) (dict_get profile_data ''mixed_layer_depth'' (Scalar (PyInt 0)))) (\<lambda>mld.
           if vector_accepts e (vector_store st) profile_data then Inr () else Inl LibraryError)))) of
        Inl err \<Rightarrow> (st, False)
      | Inr u \<Rightarrow> (st\<lparr>vector_store := vector_store st @ [profile_data]\<rparr>, True))"

text \<open>
  \<^verbatim>\<open>DataIngestionPipeline._save_to_database\<close> (data_ingestion.py): eight keys are read
  with \<^verbatim>\<open>profile_data[key]\<close>; their columns are declared \<^verbatim>\<open>nullable=False\<close> in
  models.py, so the commit fails on a \<^verbatim>\<open>None\<close>. The row gets a fresh identifier.
\<close>

definition required_columns :: "string list" where
  "required_columns = [''platform_number'', ''cycle_number'', ''latitude'', ''longitude'',
     ''measurement_date'', ''pressure_levels'', ''temperature'', ''salinity'']"

fun read_columns :: "pydict \<Rightarrow> string list \<Rightarrow> error + pyvalue list" where
  "read_columns d [] = Inr []"
| "read_columns d (key # keys) =
     and_then (dict_getitem d key) (\<lambda>v.
     and_then (read_columns d keys) (\<lambda>vs. Inr (v # vs)))"

definition fresh_id :: "argo_row list \<Rightarrow> nat" where
  "fresh_id rows = fold (\<lambda>r n. max n (Suc (row_id r))) rows 0"

definition save_to_database :: "env \<Rightarrow> stores \<Rightarrow> pydict \<Rightarrow> stores \<times> bool" where
  "save_to_database e st profile_data =
     (case and_then (read_columns profile_data required_columns) (\<lambda>vs.
           if Scalar PyNone \<notin> set vs \<and> sql_accepts e (sql_store st) profile_data
           then Inr () else Inl LibraryError) of
        Inl err \<Rightarrow> (st, False)
      | Inr u \<Rightarrow>
          (st\<lparr>sql_store := sql_store st
                  @ [\<lparr>row_id = fresh_id (sql_store st), row_data = profile_data\<rparr>]\<rparr>, True))"

text \<open>
  \<^verbatim>\<open>DataIngestionPipeline.ingest_single_file\<close>. The three calls catch their own
  exceptions, so the \<^verbatim>\<open>except\<close> branch of this function is never taken. Both
  writes are made, whatever the first one returns.
\<close>

definition ingest_single_file :: "env \<Rightarrow> stores \<Rightarrow> string \<Rightarrow> stores \<times> bool" where
  "ingest_single_file e st file_path =
     (case process_argo_file (env_gsw e) (env_now e) (env_files e) file_path of
        None \<Rightarrow> (st, False)
      | Some profile_data \<Rightarrow>
          if profile_data = [] then (st, False)
          else
            let (st1, vector_success) = add_profile e st profile_data;
                (st2, sql_success) = save_to_database e st1 profile_data
            in (st2, vector_success \<and> sql_success))"

text \<open>
  \<^verbatim>\<open>DataIngestionPipeline.ingest_directory\<close>: the loop over the files with its three
  accumulators, and the function around it.
\<close>

record summary =
  processed :: nat
  errors :: nat
  files :: "string list"

fun ingest_loop :: "env \<Rightarrow> string list \<Rightarrow> stores \<times> summary \<Rightarrow> stores \<times> summary" where
  "ingest_loop e [] (st, s) = (st, s)"
| "ingest_loop e (file_path # rest) (st, s) =
     (let (st1, result) = ingest_single_file e st file_path in
      if result
      then ingest_loop e rest
             (st1, s\<lparr>processed := processed s + 1, files := files s @ [file_path]\<rparr>)
      else ingest_loop e rest (st1, s\<lparr>errors := errors s + 1\<rparr>))"

definition ingest_directory :: "env \<Rightarrow> stores \<Rightarrow> string \<Rightarrow> stores \<times> summary" where
  "ingest_directory e st directory_path =
     (case env_glob e directory_path of
        Inl err \<Rightarrow> (st, \<lparr>processed = 0, errors = 1, files = []\<rparr>)
      | Inr netcdf_files \<Rightarrow>
          if netcdf_files = [] then (st, \<lparr>processed = 0, errors = 0, files = []\<rparr>)
          else ingest_loop e netcdf_files (st, \<lparr>processed = 0, errors = 0, files = []\<rparr>))"

text \<open>
  The results of \<^verbatim>\<open>ingest_single_file\<close> on the files of a batch, one after the other,
  each on the stores the files before it left; and the files whose result is
  \<^verbatim>\<open>True\<close>.
\<close>

fun outcomes :: "env \<Rightarrow> stores \<Rightarrow> string list \<Rightarrow> bool list" where
  "outcomes e st [] = []"
| "outcomes e st (file_path # rest) =
     snd (ingest_single_file e st file_path)
     # outcomes e (fst (ingest_single_file e st file_path)) rest"

definition succeeded :: "env \<Rightarrow> stores \<Rightarrow> string list \<Rightarrow> string list" where
  "succeeded e st paths = map fst (filter snd (zip paths (outcomes e st paths)))"

text \<open>Both writes of a file succeed: the vector-store write, then the relational one.\<close>

definition both_writes_succeed :: "env \<Rightarrow> stores \<Rightarrow> pydict \<Rightarrow> bool" where
  "both_writes_succeed e st profile_data =
     (snd (add_profile e st profile_data)
      \<and> snd (save_to_database e (fst (add_profile e st profile_data)) profile_data))"

lemma ingest_single_file_result:
  "snd (ingest_single_file e st file_path)
   = (case process_argo_file (env_gsw e) (env_now e) (env_files e) file_path of
        None \<Rightarrow> False
      | Some profile_data \<Rightarrow> profile_data \<noteq> [] \<and> both_writes_succeed e st profile_data)"
  by (simp add: ingest_single_file_def both_writes_succeed_def case_prod_beta Let_def
      split: option.splits)

lemma ingest_loop_summary:
  "snd (ingest_loop e paths (st, s)) =
     s\<lparr>processed := processed s + length (succeeded e st paths),
       errors := errors s + (length paths - length (succeeded e st paths)),
       files := files s @ succeeded e st paths\<rparr>"
proof (induction paths arbitrary: st s)
  case Nil
  then show ?case by (simp add: succeeded_def)
next
  case (Cons file_path rest)
  obtain st1 result where r: "ingest_single_file e st file_path = (st1, result)"
    by (cases "ingest_single_file e st file_path")
  have le: "length (succeeded e st1 rest) \<le> length rest"
    unfolding succeeded_def
    by (metis length_filter_le length_map length_zip min.cobounded1 order_trans)
  show ?case
  proof (cases result)
    case True
    with r le Cons.IH [of st1] show ?thesis
      by (simp add: succeeded_def)
  next
    case False
    with r le Cons.IH [of st1] show ?thesis
      by (simp add: succeeded_def Suc_diff_le)
  qed
qed

lemma succeeded_length: "length (succeeded e st paths) \<le> length paths"
  unfolding succeeded_def
  by (metis length_filter_le length_map length_zip min.cobounded1 order_trans)

lemma process_argo_file_nonempty:
  assumes "process_argo_file g now fs file_path = Some d"
  shows "d \<noteq> []"
proof -
  from assms obtain ds where ds: "fs file_path = Some ds" "process_dataset g now ds = Inr d"
    by (auto simp add: process_argo_file_def open_dataset_def and_then_def
        split: option.splits sum.splits)
  then obtain pd where pd: "extract_profile now ds = Inr pd"
    by (cases "extract_profile now ds") (simp_all add: process_dataset_def and_then_def)
  have "map_of d ''platform_number'' = Some (Scalar (PyStr (extract_platform_number ds)))"
    using processed_lookup [OF pd _ ds(2), of "''platform_number''"] extract_profile_keys(4) [OF pd]
    by simp
  then show ?thesis by auto
qed

text \<open>
  C8. \<^verbatim>\<open>ingest_directory\<close> returns a summary in every case, whose file list is as long
  as its processed count. When the listing of the directory raises, the summary is
  (0, 1, []). Otherwise the file list holds exactly the files for which
  \<^verbatim>\<open>ingest_single_file\<close> returned \<^verbatim>\<open>True\<close>, in order, and every other file of the
  listing is counted as an error, so that no failure stops the batch. A file's result is
  \<^verbatim>\<open>True\<close> if and only if it was extracted and both the vector-store write and the
  relational write succeeded.
\<close>

theorem ingest_directory_summary:
  "length (files (snd (ingest_directory e st directory_path)))
     = processed (snd (ingest_directory e st directory_path))
   \<and> (case env_glob e directory_path of
         Inl err \<Rightarrow>
           snd (ingest_directory e st directory_path) = \<lparr>processed = 0, errors = 1, files = []\<rparr>
       | Inr paths \<Rightarrow>
           files (snd (ingest_directory e st directory_path)) = succeeded e st paths
           \<and> processed (snd (ingest_directory e st directory_path))
               + errors (snd (ingest_directory e st directory_path)) = length paths)
   \<and> (\<forall>st1 file_path.
         snd (ingest_single_file e st1 file_path)
         \<longleftrightarrow> (\<exists>profile_data.
                process_argo_file (env_gsw e) (env_now e) (env_files e) file_path
                  = Some profile_data
                \<and> both_writes_succeed e st1 profile_data))"
proof (intro conjI allI)
  show "length (files (snd (ingest_directory e st directory_path)))
        = processed (snd (ingest_directory e st directory_path))"
    by (simp add: ingest_directory_def ingest_loop_summary split: sum.splits)
next
  show "case env_glob e directory_path of
          Inl err \<Rightarrow>
            snd (ingest_directory e st directory_path) = \<lparr>processed = 0, errors = 1, files = []\<rparr>
        | Inr paths \<Rightarrow>
            files (snd (ingest_directory e st directory_path)) = succeeded e st paths
            \<and> processed (snd (ingest_directory e st directory_path))
                + errors (snd (ingest_directory e st directory_path)) = length paths"
    using succeeded_length [of e st]
    by (auto simp add: ingest_directory_def ingest_loop_summary succeeded_def split: sum.splits)
next
  fix st1 file_path
  show "snd (ingest_single_file e st1 file_path)
        \<longleftrightarrow> (\<exists>profile_data.
               process_argo_file (env_gsw e) (env_now e) (env_files e) file_path
                 = Some profile_data
               \<and> both_writes_succeed e st1 profile_data)"
    using process_argo_file_nonempty [of "env_gsw e" "env_now e" "env_files e" file_path]
    by (auto simp add: ingest_single_file_result split: option.splits)
qed

text \<open>
  A batch of four files: three hold the scenario profile, the fourth has no latitude.
  Both stores accept every write.
\<close>

definition batch_env :: env where
  "batch_env = \<lparr>env_files = (\<lambda>p. if p = ''d.nc''
                                 then Some (scenario_dataset\<lparr>LATITUDE := None\<rparr>)
                                 else Some scenario_dataset),
                env_glob = (\<lambda>d. Inr [''a.nc'', ''b.nc'', ''c.nc'', ''d.nc'']),
                env_gsw = gsw_plain, env_now = 0,
                float_of_text = (\<lambda>s. Inl ValueError),
                vector_accepts = (\<lambda>docs p. True), sql_accepts = (\<lambda>rows p. True)\<rparr>"

lemmas pipeline_defs = process_argo_file_def open_dataset_def process_dataset_def
  extract_profile_def extract_platform_number_def extract_date_def
  calculate_derived_parameters_def eval_defs gsw_plain_def full_parameters_def
  fallback_parameters_def dict_update_def dict_setitem_def scenario_region scenario_mld
  scenario_date clean_profile_data_def clean_step_def Let_def

definition scenario_profile :: pydict where
  "scenario_profile =
     [(''platform_number'', Scalar (PyStr ''UNKNOWN'')),
      (''cycle_number'', Scalar (PyInt 0)),
      (''latitude'', Scalar (PyFloat (Fin (5 / 2)))),
      (''longitude'', Scalar (PyFloat (dbl (873 / 10)))),
      (''measurement_date'', Scalar (PyTimestamp 27000)),
      (''pressure_levels'', PyList (map PyFloat [Fin (5 / 2), Fin 10, Fin 20, Fin 50])),
      (''temperature'', PyList (map PyFloat [Fin 28, dbl (279 / 10), Fin 26, Fin 20])),
      (''salinity'', PyList (map PyFloat
         [dbl (342 / 10), dbl (343 / 10), dbl (348 / 10), dbl (351 / 10)])),
      (''temp_qc'', PyList []), (''psal_qc'', PyList []),
      (''absolute_salinity'', PyList (map PyFloat
         [dbl (342 / 10), dbl (343 / 10), dbl (348 / 10), dbl (351 / 10)])),
      (''conservative_temperature'', PyList (map PyFloat
         [dbl (342 / 10), dbl (343 / 10), dbl (348 / 10), dbl (351 / 10)])),
      (''potential_density'', PyList (map PyFloat
         [dbl (342 / 10), dbl (343 / 10), dbl (348 / 10), dbl (351 / 10)])),
      (''mixed_layer_depth'', Scalar (PyFloat (Fin 20))),
      (''max_depth'', Scalar (PyFloat (Fin 50))),
      (''ocean_region'', Scalar (PyStr ''Indian Ocean''))]"

lemma scenario_processed:
  "process_dataset gsw_plain 0 scenario_dataset = Inr scenario_profile"
  by (simp add: pipeline_defs scenario_dataset_def scenario_profile_def)

lemma no_latitude:
  "process_dataset gsw_plain 0 (scenario_dataset\<lparr>LATITUDE := None\<rparr>) = Inl AttributeError"
  by (simp add: process_dataset_def extract_profile_def and_then_def scenario_dataset_def)

lemma batch_writes:
  "add_profile batch_env st scenario_profile
     = (st\<lparr>vector_store := vector_store st @ [scenario_profile]\<rparr>, True)"
  "save_to_database batch_env st scenario_profile
     = (st\<lparr>sql_store := sql_store st
              @ [\<lparr>row_id = fresh_id (sql_store st), row_data = scenario_profile\<rparr>]\<rparr>, True)"
  by (simp_all add: add_profile_def save_to_database_def batch_env_def scenario_profile_def
      dict_get_def dict_getitem_def and_then_def required_columns_def)

lemma batch_single:
  "file_path \<noteq> ''d.nc'' \<Longrightarrow> snd (ingest_single_file batch_env st file_path)"
  "\<not> snd (ingest_single_file batch_env st ''d.nc'')"
proof -
  have f: "env_gsw batch_env = gsw_plain" "env_now batch_env = 0"
    "env_files batch_env ''d.nc'' = Some (scenario_dataset\<lparr>LATITUDE := None\<rparr>)"
    "\<And>p. p \<noteq> ''d.nc'' \<Longrightarrow> env_files batch_env p = Some scenario_dataset"
    by (simp_all add: batch_env_def)
  have ne: "scenario_profile \<noteq> []"
    by (simp add: scenario_profile_def)
  show "file_path \<noteq> ''d.nc'' \<Longrightarrow> snd (ingest_single_file batch_env st file_path)"
    by (simp add: ingest_single_file_def f process_argo_file_def open_dataset_def and_then_def
        scenario_processed ne batch_writes)
  show "\<not> snd (ingest_single_file batch_env st ''d.nc'')"
    by (simp add: ingest_single_file_def f process_argo_file_def open_dataset_def and_then_def
        no_latitude)
qed

theorem ingest_directory_summary_witness:
  "snd (ingest_directory batch_env \<lparr>vector_store = [], sql_store = []\<rparr> ''data'')
     = \<lparr>processed = 3, errors = 1, files = [''a.nc'', ''b.nc'', ''c.nc'']\<rparr>
   \<and> succeeded batch_env \<lparr>vector_store = [], sql_store = []\<rparr> [''a.nc'', ''b.nc'', ''c.nc'', ''d.nc'']
     = [''a.nc'', ''b.nc'', ''c.nc'']"
proof -
  let ?st = "\<lparr>vector_store = [], sql_store = []\<rparr>"
  let ?s = "snd (ingest_directory batch_env ?st ''data'')"
  have g: "env_glob batch_env ''data'' = Inr [''a.nc'', ''b.nc'', ''c.nc'', ''d.nc'']"
    by (simp add: batch_env_def)
  have s: "succeeded batch_env ?st [''a.nc'', ''b.nc'', ''c.nc'', ''d.nc'']
           = [''a.nc'', ''b.nc'', ''c.nc'']"
    by (simp add: succeeded_def batch_single)
  note t = ingest_directory_summary [of batch_env ?st "''data''"]
  from t g s have fs: "files ?s = [''a.nc'', ''b.nc'', ''c.nc'']"
    and sum: "processed ?s + errors ?s = 4" by simp_all
  from t fs have p: "processed ?s = 3" by simp
  with sum have e: "errors ?s = 1" by simp
  from p e fs have "?s = \<lparr>processed = 3, errors = 1, files = [''a.nc'', ''b.nc'', ''c.nc'']\<rparr>"
    by (cases ?s) simp
  with s show ?thesis by simp
qed

section \<open>Duplicate cleanup\<close>

text \<open>
  \<^verbatim>\<open>db = self.SessionLocal()\<close> is a session of the object-relational mapper, made by
  \<^verbatim>\<open>sessionmaker\<close>. A session has the attributes below; the namespace of SQL functions,
  \<^verbatim>\<open>func\<close>, is not one of them: it belongs to \<^verbatim>\<open>sqlalchemy.sql\<close>, from where
  models.py imports it. Reading an attribute that the session does not have raises
  AttributeError.
\<close>

definition session_attributes :: "string list" where
  "session_attributes = [''add'', ''add_all'', ''begin'', ''bind'', ''close'', ''commit'',
     ''delete'', ''execute'', ''expire'', ''flush'', ''get'', ''merge'', ''query'',
     ''refresh'', ''rollback'', ''scalar'', ''scalars'']"

definition session_getattr :: "string \<Rightarrow> error + string" where
  "session_getattr name =
     (if name \<in> set session_attributes then Inr name else Inl AttributeError)"

text \<open>
  The queries of \<^verbatim>\<open>cleanup_duplicates\<close> on the rows of the relational store: the
  (platform number, cycle number) pairs that more than one row has, and for each of them
  the rows in descending order of measurement date, all deleted but the first.
\<close>

definition row_key :: "argo_row \<Rightarrow> pyvalue option \<times> pyvalue option" where
  "row_key r = (map_of (row_data r) ''platform_number'', map_of (row_data r) ''cycle_number'')"

definition duplicate_keys :: "argo_row list \<Rightarrow> (pyvalue option \<times> pyvalue option) list" where
  "duplicate_keys rows =
     filter (\<lambda>k. length (filter (\<lambda>r. row_key r = k) rows) > 1) (remdups (map row_key rows))"

text \<open>The measurement date of a row; the column is not nullable, so it is a timestamp.\<close>

definition date_of :: "argo_row \<Rightarrow> real" where
  "date_of r =
     (case map_of (row_data r) ''measurement_date'' of
        Some (Scalar (PyTimestamp t)) \<Rightarrow> t
      | _ \<Rightarrow> 0)"

fun delete_duplicates ::
  "(pyvalue option \<times> pyvalue option) list \<Rightarrow> argo_row list \<times> nat \<Rightarrow> argo_row list \<times> nat" where
  "delete_duplicates [] (rows, removed_count) = (rows, removed_count)"
| "delete_duplicates (k # ks) (rows, removed_count) =
     (let profiles = sort_key (\<lambda>r. - date_of r) (filter (\<lambda>r. row_key r = k) rows);
          doomed = drop 1 profiles
      in delete_duplicates ks
           (filter (\<lambda>r. row_id r \<notin> set (map row_id doomed)) rows,
            removed_count + length doomed))"

text \<open>
  \<^verbatim>\<open>DataIngestionPipeline.cleanup_duplicates\<close>: the first statement of the
  \<^verbatim>\<open>try\<close> block reads \<^verbatim>\<open>db.query\<close> and then, for an argument of the call,
  \<^verbatim>\<open>db.func\<close>; the \<^verbatim>\<open>except\<close> branch returns 0.
\<close>

definition cleanup_duplicates :: "stores \<Rightarrow> stores \<times> nat" where
  "cleanup_duplicates st =
     (case and_then (session_getattr ''query'') (\<lambda>query.
           and_then (session_getattr ''func'') (\<lambda>func.
           Inr (delete_duplicates (duplicate_keys (sql_store st)) (sql_store st, 0)))) of
        Inl err \<Rightarrow> (st, 0)
      | Inr (rows, removed_count) \<Rightarrow> (st\<lparr>sql_store := rows\<rparr>, removed_count))"

text \<open>Two profiles of platform 2900123, cycle 10, measured on day 100 and on day 200.\<close>

definition profile_row :: "nat \<Rightarrow> string \<Rightarrow> int \<Rightarrow> real \<Rightarrow> argo_row" where
  "profile_row i platform cycle day =
     \<lparr>row_id = i,
      row_data = [(''platform_number'', Scalar (PyStr platform)),
                  (''cycle_number'', Scalar (PyInt cycle)),
                  (''measurement_date'', Scalar (PyTimestamp day))]\<rparr>"

definition duplicate_store :: stores where
  "duplicate_store =
     \<lparr>vector_store = [],
      sql_store = [profile_row 0 ''2900123'' 10 100, profile_row 1 ''2900123'' 10 200]\<rparr>"

text \<open>
  C9. On the store with the two profiles of platform 2900123, cycle 10, the queries of
  \<^verbatim>\<open>cleanup_duplicates\<close> would remove 1 row and keep the one measured later, as its
  docstring says; but the function itself returns 0 and leaves both rows in the store,
  because reading \<^verbatim>\<open>db.func\<close> raises before the first query is made.
\<close>

theorem cleanup_duplicates_removes_nothing:
  "delete_duplicates (duplicate_keys (sql_store duplicate_store)) (sql_store duplicate_store, 0)
     = ([profile_row 1 ''2900123'' 10 200], 1)
   \<and> cleanup_duplicates duplicate_store = (duplicate_store, 0)"
proof -
  have k: "duplicate_keys (sql_store duplicate_store)
           = [(Some (Scalar (PyStr ''2900123'')), Some (Scalar (PyInt 10)))]"
    by (simp add: duplicate_keys_def duplicate_store_def profile_row_def row_key_def)
  have "delete_duplicates (duplicate_keys (sql_store duplicate_store))
          (sql_store duplicate_store, 0) = ([profile_row 1 ''2900123'' 10 200], 1)"
    unfolding k
    by (simp add: duplicate_store_def profile_row_def row_key_def date_of_def)
  moreover have "cleanup_duplicates duplicate_store = (duplicate_store, 0)"
    by (simp add: cleanup_duplicates_def session_getattr_def session_attributes_def and_then_def)
  ultimately show ?thesis by simp
qed

end
